theory Spec2Isabelle
  imports Main "HOL-Library.Word"
begin

unbundle bit_operations_syntax

section \<open>Bytes, Python exceptions and \<open>struct.pack\<close>\<close>

type_synonym byte = "8 word"
type_synonym bytes = "byte list"

text \<open>
  The exceptions the export can raise: a missing dictionary key, a value outside the range of
  a \<open>struct.pack\<close> format, a division by zero, an integer too large for a float, a read
  of an attribute that has not been assigned, and a failure to open or write the file.
\<close>

datatype error =
    KeyError nat
  | StructError
  | ZeroDivisionError
  | OverflowError
  | AttributeError string
  | OSError

text \<open>Little-endian bytes of an integer; a negative integer comes out in two's complement.\<close>

fun le_bytes :: "nat \<Rightarrow> int \<Rightarrow> bytes" where
  "le_bytes 0 n = []"
| "le_bytes (Suc k) n = word_of_int n # le_bytes k (n div 256)"

text \<open>\<open>struct.pack\<close> with the formats \<open><B\<close>, \<open><H\<close>, \<open><h\<close> and \<open><I\<close>: it raises
  \<open>struct.error\<close> when the number does not fit the format.\<close>

definition pack_B :: "int \<Rightarrow> error + bytes" where
  "pack_B n = (if 0 \<le> n \<and> n < 256 then Inr (le_bytes 1 n) else Inl StructError)"

definition pack_H :: "int \<Rightarrow> error + bytes" where
  "pack_H n = (if 0 \<le> n \<and> n < 65536 then Inr (le_bytes 2 n) else Inl StructError)"

definition pack_h :: "int \<Rightarrow> error + bytes" where
  "pack_h n = (if - 32768 \<le> n \<and> n < 32768 then Inr (le_bytes 2 n) else Inl StructError)"

definition pack_I :: "int \<Rightarrow> error + bytes" where
  "pack_I n = (if 0 \<le> n \<and> n < 4294967296 then Inr (le_bytes 4 n) else Inl StructError)"

text \<open>\<open>struct.pack('<B', c)\<close> for a constant \<open>c\<close> of the \<open>ecg_scp\<close> module that is a one-byte
  code: it cannot raise.\<close>

definition pack_byte :: "byte \<Rightarrow> bytes" where
  "pack_byte c = [c]"

section \<open>\<open>binascii.crc_hqx\<close>\<close>

text \<open>
  The CRC of the Python standard library: polynomial \<open>x^16 + x^12 + x^5 + 1\<close> (\<open>0x1021\<close>),
  most significant bit first, the register starting at the given value, no final XOR.
\<close>

fun crc_shift :: "nat \<Rightarrow> 16 word \<Rightarrow> 16 word" where
  "crc_shift 0 c = c"
| "crc_shift (Suc k) c =
     crc_shift k (if bit c 15 then push_bit 1 c XOR 0x1021 else push_bit 1 c)"

definition crc_update :: "byte \<Rightarrow> 16 word \<Rightarrow> 16 word" where
  "crc_update b c = crc_shift 8 (c XOR push_bit 8 (ucast b))"

definition crc_hqx :: "bytes \<Rightarrow> 16 word \<Rightarrow> 16 word" where
  "crc_hqx bs v = fold crc_update bs v"

section \<open>The \<open>ecg_scp\<close> module\<close>

record datetime =
  year :: nat
  month :: nat
  day :: nat
  hour :: nat
  minute :: nat
  second :: nat

text \<open>
  Module \<open>ecg_scp\<close> is imported by \<open>ecg2scp.py\<close> and is not part of the sources at hand. Its
  constants and encoders are parameters of the model: every theorem below holds for any
  values of them. The length constants are natural numbers, the one-byte codes of the format
  are bytes, and the encoders are functions to byte strings.
\<close>

record scp_module =
  SCPECG_HEADER_LEN :: nat
  SECTION_HEADER_LEN :: nat
  POINTER_FIELD_LEN :: nat
  LEAD_I :: byte
  LEAD_II :: byte
  LEAD_III :: byte
  LEAD_AVR :: byte
  LEAD_AVL :: byte
  LEAD_AVF :: byte
  LEAD_V1 :: byte
  LEAD_V2 :: byte
  LEAD_V3 :: byte
  LEAD_V4 :: byte
  LEAD_V5 :: byte
  LEAD_V6 :: byte
  SEX_UNKNOWN :: byte
  SEX_MALE :: byte
  SEX_FEMALE :: byte
  WEIGHT_UNSPECIFIED :: byte
  WEIGHT_KILOGRAM :: byte
  AGE_UNSPECIFIED :: byte
  AGE_YEARS :: byte
  ALL_SIMULTANEOUS_READ :: byte
  ENCODING_REAL :: byte
  BIMODAL_COMPRESSION_FALSE :: byte
  TAG_PATIENT_ID :: nat
  TAG_ECG_SEQ_NUM :: nat
  TAG_PATIENT_LAST_NAME :: nat
  TAG_PATIENT_SEX :: nat
  TAG_PATIENT_WEIGHT :: nat
  TAG_PATIENT_AGE :: nat
  TAG_DATE_ACQ :: nat
  TAG_TIME_ACQ :: nat
  TAG_ACQ_DEV_ID :: nat
  TAG_EOF :: nat
  make_pointer_field :: "nat \<Rightarrow> nat \<Rightarrow> nat \<Rightarrow> bytes"
  make_tag :: "nat \<Rightarrow> bytes \<Rightarrow> bytes"
  make_asciiz :: "string \<Rightarrow> bytes"
  make_3bytes_intval_unit :: "int \<Rightarrow> byte \<Rightarrow> bytes"
  make_date :: "datetime \<Rightarrow> bytes"
  make_time :: "datetime \<Rightarrow> bytes"
  make_machine_id :: "string \<Rightarrow> bytes"
  pack_section :: "nat \<Rightarrow> bytes \<Rightarrow> bytes"

section \<open>The recording and class \<open>ECGBasic\<close>\<close>

text \<open>A two-dimensional \<open>numpy\<close> array of \<open>int32\<close>: its shape and its cells. Only cells inside
  the shape are ever read.\<close>

record ndarray =
  shape0 :: nat
  shape1 :: nat
  item :: "nat \<Rightarrow> nat \<Rightarrow> 32 word"

definition np_zeros :: "nat \<Rightarrow> nat \<Rightarrow> ndarray" where
  "np_zeros r c = \<lparr>shape0 = r, shape1 = c, item = (\<lambda>i j. 0)\<rparr>"

record ecg =
  data :: ndarray
  sample_bits :: int
  sample_rate :: int
  ampl_nanovolt :: int
  timestamp :: datetime
  patient_name :: string
  patient_case :: string
  patient_sex :: int
  patient_weight :: int
  patient_age :: int

text \<open>The properties \<open>n_leads\<close> and \<open>n_samples\<close> of a constructed object.\<close>

definition n_leads :: "ecg \<Rightarrow> nat" where
  "n_leads e = shape0 (data e)"

definition n_samples :: "ecg \<Rightarrow> nat" where
  "n_samples e = shape1 (data e)"

text \<open>
  The same properties read while \<open>__init__\<close> runs: the slot of attribute \<open>data\<close> is \<open>None\<close> as
  long as nothing has been assigned to it, and reading it then raises \<open>AttributeError\<close>.
\<close>

definition n_leads_of_slot :: "ndarray option \<Rightarrow> error + nat" where
  "n_leads_of_slot slot =
     (case slot of None \<Rightarrow> Inl (AttributeError ''data'') | Some d \<Rightarrow> Inr (shape0 d))"

definition n_samples_of_slot :: "ndarray option \<Rightarrow> error + nat" where
  "n_samples_of_slot slot =
     (case slot of None \<Rightarrow> Inl (AttributeError ''data'') | Some d \<Rightarrow> Inr (shape1 d))"

text \<open>
  \<open>__init__(self, data=None)\<close>. The first statement evaluates its right-hand side, the
  conditional expression, before attribute \<open>data\<close> is assigned: the slot is still empty there.
  The argument of \<open>np.zeros\<close> reads \<open>self.n_leads\<close>, then \<open>self.n_samples\<close>. The other
  attributes get the values of lines 38 to 50 (\<open>new_ecg\<close>).
\<close>

definition new_ecg :: "ndarray \<Rightarrow> ecg" where
  "new_ecg d =
     \<lparr>data = d, sample_bits = 16, sample_rate = 500, ampl_nanovolt = 5000,
      timestamp = \<lparr>year = 2022, month = 1, day = 1, hour = 1, minute = 1, second = 1\<rparr>,
      patient_name = ''anonymized'', patient_case = ''unknown_case'',
      patient_sex = 0, patient_weight = 0, patient_age = 0\<rparr>"

definition ECGBasic_init :: "ndarray option \<Rightarrow> error + ecg" where
  "ECGBasic_init arg =
     (let slot = None;
          rhs = (case arg of
                   None \<Rightarrow>
                     (case n_leads_of_slot slot of
                        Inl err \<Rightarrow> Inl err
                      | Inr r \<Rightarrow>
                          (case n_samples_of_slot slot of
                             Inl err \<Rightarrow> Inl err
                           | Inr c \<Rightarrow> Inr (np_zeros r c)))
                 | Some d \<Rightarrow> Inr d)
      in case rhs of
           Inl err \<Rightarrow> Inl err
         | Inr d \<Rightarrow> Inr (new_ecg d))"

section \<open>Assembling a payload\<close>

text \<open>
  A payload is built by appending to a byte string (\<open>s[k] += ...\<close>). A step takes the bytes
  appended so far and returns the longer byte string, or the exception together with the
  bytes as they stand when it is raised.
\<close>

type_synonym step = "bytes \<Rightarrow> (error \<times> bytes) + bytes"

definition emit :: "error + bytes \<Rightarrow> step" where
  "emit r acc = (case r of Inl err \<Rightarrow> Inl (err, acc) | Inr b \<Rightarrow> Inr (acc @ b))"

primrec run_all :: "step list \<Rightarrow> step" where
  "run_all [] acc = Inr acc"
| "run_all (st # sts) acc =
     (case st acc of Inl x \<Rightarrow> Inl x | Inr acc' \<Rightarrow> run_all sts acc')"

section \<open>\<open>export_scp\<close>: the sections\<close>

text \<open>
  The dictionary \<open>s\<close> of section payloads. Lines 68 to 70 give it the keys 0 to 11, each with
  the empty byte string, and no key outside 0 to 11 is ever read or written, so the
  dictionary is a function from the section id.
\<close>

type_synonym sections = "nat \<Rightarrow> bytes"

definition empty_sections :: sections where
  "empty_sections = (\<lambda>sect_id. [])"

subsection \<open>Section 0: the pointers (lines 72 to 83)\<close>

text \<open>The loop over the section ids 1 to 11: the table built so far and the running index.\<close>

fun pointer_loop :: "scp_module \<Rightarrow> sections \<Rightarrow> nat list \<Rightarrow> bytes \<times> nat \<Rightarrow> bytes \<times> nat" where
  "pointer_loop scp s [] (tab, index) = (tab, index)"
| "pointer_loop scp s (sect_id # ids) (tab, index) =
     (let len0 = length (s sect_id);
          len = (if len0 > 0 then len0 + SECTION_HEADER_LEN scp else len0)
      in pointer_loop scp s ids (tab @ make_pointer_field scp sect_id len index, index + len))"

definition section0 :: "scp_module \<Rightarrow> sections \<Rightarrow> bytes" where
  "section0 scp s =
     (let len = SECTION_HEADER_LEN scp + POINTER_FIELD_LEN scp * 12;
          index = SCPECG_HEADER_LEN scp + 1
      in fst (pointer_loop scp s [1..<12] (make_pointer_field scp 0 len index, index + len)))"

subsection \<open>Section 1: the patient data (lines 85 to 108)\<close>

definition sex_code_of :: "scp_module \<Rightarrow> int \<Rightarrow> byte" where
  "sex_code_of scp sex =
     (if sex = 1 then SEX_MALE scp else if sex = 0 then SEX_FEMALE scp else SEX_UNKNOWN scp)"

definition section1 :: "scp_module \<Rightarrow> ecg \<Rightarrow> bytes" where
  "section1 scp e =
     (let sex_code = sex_code_of scp (patient_sex e);
          weight_unit = (if patient_weight e = 0 then WEIGHT_UNSPECIFIED scp else WEIGHT_KILOGRAM scp);
          age_unit = (if patient_age e = 0 then AGE_UNSPECIFIED scp else AGE_YEARS scp)
      in make_tag scp (TAG_PATIENT_ID scp) (make_asciiz scp (patient_name e))
       @ make_tag scp (TAG_ECG_SEQ_NUM scp) (make_asciiz scp (patient_case e))
       @ make_tag scp (TAG_PATIENT_LAST_NAME scp) (make_asciiz scp (patient_name e))
       @ make_tag scp (TAG_PATIENT_SEX scp) (pack_byte sex_code)
       @ make_tag scp (TAG_PATIENT_WEIGHT scp) (make_3bytes_intval_unit scp (patient_weight e) weight_unit)
       @ make_tag scp (TAG_PATIENT_AGE scp) (make_3bytes_intval_unit scp (patient_age e) age_unit)
       @ make_tag scp (TAG_DATE_ACQ scp) (make_date scp (timestamp e))
       @ make_tag scp (TAG_TIME_ACQ scp) (make_time scp (timestamp e))
       @ make_tag scp (TAG_ACQ_DEV_ID scp) (make_machine_id scp ''unknown_machine'')
       @ make_tag scp (TAG_EOF scp) [])"

text \<open>The same ten fields as pairs of tag and value, in the order they are appended.\<close>

definition section1_fields :: "scp_module \<Rightarrow> ecg \<Rightarrow> (nat \<times> bytes) list" where
  "section1_fields scp e =
     [(TAG_PATIENT_ID scp, make_asciiz scp (patient_name e)),
      (TAG_ECG_SEQ_NUM scp, make_asciiz scp (patient_case e)),
      (TAG_PATIENT_LAST_NAME scp, make_asciiz scp (patient_name e)),
      (TAG_PATIENT_SEX scp, pack_byte (sex_code_of scp (patient_sex e))),
      (TAG_PATIENT_WEIGHT scp,
         make_3bytes_intval_unit scp (patient_weight e)
           (if patient_weight e = 0 then WEIGHT_UNSPECIFIED scp else WEIGHT_KILOGRAM scp)),
      (TAG_PATIENT_AGE scp,
         make_3bytes_intval_unit scp (patient_age e)
           (if patient_age e = 0 then AGE_UNSPECIFIED scp else AGE_YEARS scp)),
      (TAG_DATE_ACQ scp, make_date scp (timestamp e)),
      (TAG_TIME_ACQ scp, make_time scp (timestamp e)),
      (TAG_ACQ_DEV_ID scp, make_machine_id scp ''unknown_machine''),
      (TAG_EOF scp, [])]"

subsection \<open>Section 3: the lead definition (lines 110 to 123)\<close>

definition LEADS_ORDER_GENERAL :: "scp_module \<Rightarrow> nat \<rightharpoonup> byte" where
  "LEADS_ORDER_GENERAL scp =
     map_of [(0, LEAD_I scp), (1, LEAD_II scp), (2, LEAD_III scp), (3, LEAD_AVR scp),
             (4, LEAD_AVL scp), (5, LEAD_AVF scp), (6, LEAD_V1 scp), (7, LEAD_V2 scp),
             (8, LEAD_V3 scp), (9, LEAD_V4 scp), (10, LEAD_V5 scp), (11, LEAD_V6 scp)]"

text \<open>The body of the loop over the leads: the lookup in the table comes first and raises
  \<open>KeyError\<close> before anything of this lead is appended.\<close>

definition lead_entry :: "scp_module \<Rightarrow> ecg \<Rightarrow> nat \<Rightarrow> step" where
  "lead_entry scp e i acc =
     (let starting_sample = 1; ending_sample = int (n_samples e)
      in case LEADS_ORDER_GENERAL scp i of
           None \<Rightarrow> Inl (KeyError i, acc)
         | Some lead_id \<Rightarrow>
             run_all [emit (pack_I starting_sample), emit (pack_I ending_sample),
                      emit (Inr (pack_byte lead_id))] acc)"

definition section3 :: "scp_module \<Rightarrow> ecg \<Rightarrow> (error \<times> bytes) + bytes" where
  "section3 scp e =
     (let leads_number = int (n_leads e);
          flag_byte = (0 OR uint (ALL_SIMULTANEOUS_READ scp)) OR push_bit 3 leads_number
      in run_all ([emit (pack_B leads_number), emit (pack_B flag_byte)]
                  @ map (lead_entry scp e) [0..<n_leads e]) [])"

subsection \<open>Section 6: the rhythm data (lines 125 to 144)\<close>

text \<open>
  \<open>int(1e6 / self.sample_rate)\<close> for an integer sample rate: the rate is converted to a
  float (which raises \<open>OverflowError\<close> from \<open>2^1024 - 2^970\<close> on), a zero rate raises
  \<open>ZeroDivisionError\<close>, and \<open>int\<close> truncates the quotient towards zero. For every other
  integer rate the float quotient has the same integer part as the exact one.
\<close>

definition sample_time_interval_of :: "int \<Rightarrow> error + int" where
  "sample_time_interval_of rate =
     (if 2 ^ 1024 - 2 ^ 970 \<le> \<bar>rate\<bar> then Inl OverflowError
      else if rate = 0 then Inl ZeroDivisionError
      else Inr (sgn rate * (1000000 div \<bar>rate\<bar>)))"

text \<open>The series of lead \<open>i\<close> (lines 141 to 143): \<open>n\<close> samples, each packed as \<open><h\<close>.\<close>

definition serie :: "ecg \<Rightarrow> nat \<Rightarrow> nat \<Rightarrow> (error \<times> bytes) + bytes" where
  "serie e n i = run_all (map (\<lambda>j. emit (pack_h (sint (item (data e) i j)))) [0..<n]) []"

text \<open>Line 144: the finished series is appended; an exception inside the series leaves the
  payload as it was.\<close>

definition append_serie :: "ecg \<Rightarrow> nat \<Rightarrow> nat \<Rightarrow> step" where
  "append_serie e n i acc =
     (case serie e n i of Inl (err, part) \<Rightarrow> Inl (err, acc) | Inr sr \<Rightarrow> Inr (acc @ sr))"

definition section6 :: "scp_module \<Rightarrow> ecg \<Rightarrow> (error \<times> bytes) + bytes" where
  "section6 scp e =
     (let amplitude_multiplier = ampl_nanovolt e
      in case sample_time_interval_of (sample_rate e) of
           Inl err \<Rightarrow> Inl (err, [])
         | Inr sample_time_interval \<Rightarrow>
             (let max_samples = 65535 div 2;
                  n = min (n_samples e) max_samples;
                  bytes_to_store = int (n * 2)
              in run_all ([emit (pack_H amplitude_multiplier), emit (pack_H sample_time_interval),
                           emit (Inr (pack_byte (ENCODING_REAL scp))),
                           emit (Inr (pack_byte (BIMODAL_COMPRESSION_FALSE scp)))]
                          @ map (\<lambda>i. emit (pack_H bytes_to_store)) [0..<n_leads e]
                          @ map (append_serie e n) [0..<n_leads e]) []))"

section \<open>\<open>export_scp\<close>: the record and the file\<close>

text \<open>
  The sections in the order the code prepares them: 0, 1, 3, 6. The pointer table is built
  from the dictionary as it is at that point. When a section raises, the result is the
  exception with the dictionary as it stands then.
\<close>

definition build_sections :: "scp_module \<Rightarrow> ecg \<Rightarrow> (error \<times> sections) + sections" where
  "build_sections scp e =
     (let s = empty_sections;
          s = s(0 := section0 scp s);
          s = s(1 := section1 scp e)
      in case section3 scp e of
           Inl (err, part) \<Rightarrow> Inl (err, s(3 := part))
         | Inr p3 \<Rightarrow>
             (let s = s(3 := p3)
              in case section6 scp e of
                   Inl (err, part) \<Rightarrow> Inl (err, s(6 := part))
                 | Inr p6 \<Rightarrow> Inr (s(6 := p6))))"

definition sections_at_end :: "(error \<times> sections) + sections \<Rightarrow> sections" where
  "sections_at_end r = (case r of Inl (err, s) \<Rightarrow> s | Inr s \<Rightarrow> s)"

text \<open>Lines 150 to 157: the size, then the record.\<close>

definition record_size :: "scp_module \<Rightarrow> sections \<Rightarrow> nat" where
  "record_size scp s =
     fold (\<lambda>sect_id size.
             if length (s sect_id) > 0 then size + (SECTION_HEADER_LEN scp + length (s sect_id))
             else size)
          [0, 1, 2, 3, 6] (SCPECG_HEADER_LEN scp)"

definition assemble :: "scp_module \<Rightarrow> sections \<Rightarrow> error + bytes" where
  "assemble scp s =
     (case pack_I (int (record_size scp s)) of
        Inl err \<Rightarrow> Inl err
      | Inr size_field \<Rightarrow>
          Inr (fold (\<lambda>sect_id scp_ecg.
                       if length (s sect_id) > 0 then scp_ecg @ pack_section scp sect_id (s sect_id)
                       else scp_ecg)
                    [0, 1, 2, 3, 6] size_field))"

definition build_record :: "scp_module \<Rightarrow> ecg \<Rightarrow> error + bytes" where
  "build_record scp e =
     (case build_sections scp e of
        Inl (err, s) \<Rightarrow> Inl err
      | Inr s \<Rightarrow> assemble scp s)"

text \<open>
  The file system: the contents of the files, the paths that \<open>open(path, "wb")\<close> can open,
  and for each path the number of bytes after which writing to it fails (\<open>None\<close> when it
  never does).
\<close>

record filesystem =
  files :: "string \<rightharpoonup> bytes"
  can_open :: "string \<Rightarrow> bool"
  write_limit :: "string \<Rightarrow> nat option"

text \<open>
  Lines 161 and 162. \<open>open\<close> raises \<open>OSError\<close> when the path cannot be opened, and the file
  system stays as it was; otherwise the file is created or truncated, and \<open>f.write\<close> writes
  all the bytes, or raises \<open>OSError\<close> and leaves a prefix of them in the file.
\<close>

definition write_file :: "string \<Rightarrow> bytes \<Rightarrow> filesystem \<Rightarrow> (error + unit) \<times> filesystem" where
  "write_file name content fs =
     (if \<not> can_open fs name then (Inl OSError, fs)
      else case write_limit fs name of
             None \<Rightarrow> (Inr (), fs\<lparr>files := (files fs)(name \<mapsto> content)\<rparr>)
           | Some k \<Rightarrow>
               if length content \<le> k then (Inr (), fs\<lparr>files := (files fs)(name \<mapsto> content)\<rparr>)
               else (Inl OSError, fs\<lparr>files := (files fs)(name \<mapsto> take k content)\<rparr>))"

text \<open>The file system lets a file of \<open>n\<close> bytes be written under this name.\<close>

definition accepts :: "filesystem \<Rightarrow> string \<Rightarrow> nat \<Rightarrow> bool" where
  "accepts fs name n =
     (can_open fs name \<and> (case write_limit fs name of None \<Rightarrow> True | Some k \<Rightarrow> n \<le> k))"

text \<open>
  Lines 158 to 164: the CRC, the file, the returned file name. The result is the exception
  or the file name, and the file system afterwards.
\<close>

definition export_scp ::
  "scp_module \<Rightarrow> ecg \<Rightarrow> string \<Rightarrow> filesystem \<Rightarrow> (error + string) \<times> filesystem" where
  "export_scp scp e filename fs =
     (case build_record scp e of
        Inl err \<Rightarrow> (Inl err, fs)
      | Inr scp_ecg \<Rightarrow>
          (case pack_H (uint (crc_hqx scp_ecg 0xFFFF)) of
             Inl err \<Rightarrow> (Inl err, fs)
           | Inr crc \<Rightarrow>
               (case write_file filename (crc @ scp_ecg) fs of
                  (Inl err, fs') \<Rightarrow> (Inl err, fs')
                | (Inr u, fs') \<Rightarrow> (Inr filename, fs'))))"

section \<open>The layouts the specification describes\<close>

text \<open>
  The definitions of this section follow the words of the specification, to be compared
  with the payloads the code builds.
\<close>

text \<open>A pointer table: the pointer fields of a list of entries (section id, length, index).\<close>

definition pointer_fields :: "scp_module \<Rightarrow> (nat \<times> nat \<times> nat) list \<Rightarrow> bytes" where
  "pointer_fields scp entries =
     concat (map (\<lambda>(sect_id, len, index). make_pointer_field scp sect_id len index) entries)"

text \<open>The lead codes in the canonical order I, II, III, aVR, aVL, aVF, V1 to V6.\<close>

definition canonical_lead_codes :: "scp_module \<Rightarrow> byte list" where
  "canonical_lead_codes scp =
     [LEAD_I scp, LEAD_II scp, LEAD_III scp, LEAD_AVR scp, LEAD_AVL scp, LEAD_AVF scp,
      LEAD_V1 scp, LEAD_V2 scp, LEAD_V3 scp, LEAD_V4 scp, LEAD_V5 scp, LEAD_V6 scp]"

text \<open>
  Section 3: one byte lead count, one flag byte (the all-leads-simultaneous constant OR'd with
  the lead count shifted left by 3), then for each lead the starting sample index 1 and the
  ending sample index, 4 bytes each, and the one-byte lead code.
\<close>

definition section3_layout :: "scp_module \<Rightarrow> ecg \<Rightarrow> bytes" where
  "section3_layout scp e =
     le_bytes 1 (int (n_leads e))
     @ le_bytes 1 (uint (ALL_SIMULTANEOUS_READ scp) OR push_bit 3 (int (n_leads e)))
     @ concat (map (\<lambda>i. le_bytes 4 1 @ le_bytes 4 (int (n_samples e)) @ [canonical_lead_codes scp ! i])
                   [0..<n_leads e])"

text \<open>A sample that fits 16 bits signed, and a recording whose samples below the cap all do.\<close>

definition sample_fits :: "32 word \<Rightarrow> bool" where
  "sample_fits w = (- 32768 \<le> sint w \<and> sint w < 32768)"

definition encoded_samples_fit :: "ecg \<Rightarrow> bool" where
  "encoded_samples_fit e =
     list_all (\<lambda>i. list_all (\<lambda>j. sample_fits (item (data e) i j)) [0..<min (n_samples e) 32767])
              [0..<n_leads e]"

text \<open>
  Section 6: the two scaling fields (given as bytes), the encoding byte and the compression
  byte, then for every lead the byte count \<open>2 * min(n_samples, 32767)\<close> in 2 bytes, then for
  every lead its first \<open>min(n_samples, 32767)\<close> samples, 2 bytes each, little-endian, signed.
\<close>

definition section6_layout :: "scp_module \<Rightarrow> ecg \<Rightarrow> bytes \<Rightarrow> bytes \<Rightarrow> bytes" where
  "section6_layout scp e ampl interval =
     ampl @ interval @ [ENCODING_REAL scp, BIMODAL_COMPRESSION_FALSE scp]
     @ concat (replicate (n_leads e) (le_bytes 2 (2 * int (min (n_samples e) 32767))))
     @ concat (map (\<lambda>i. concat (map (\<lambda>j. le_bytes 2 (sint (item (data e) i j)))
                                     [0..<min (n_samples e) 32767]))
                   [0..<n_leads e])"

text \<open>The dictionary once the code has prepared sections 0 and 1 and sections 3 and 6 hold the
  given payloads.\<close>

definition sections_with :: "scp_module \<Rightarrow> ecg \<Rightarrow> bytes \<Rightarrow> bytes \<Rightarrow> sections" where
  "sections_with scp e p3 p6 =
     empty_sections(0 := section0 scp empty_sections, 1 := section1 scp e, 3 := p3, 6 := p6)"

text \<open>
  The record: the ids of the sections with a payload, in ascending order; the size field,
  which is the record header length plus header length and payload length of each of them;
  then these sections, each packed with its header.
\<close>

definition present_sections :: "sections \<Rightarrow> nat list" where
  "present_sections s = filter (\<lambda>sect_id. s sect_id \<noteq> []) [0..<12]"

definition record_layout :: "scp_module \<Rightarrow> sections \<Rightarrow> bytes" where
  "record_layout scp s =
     le_bytes 4 (int (SCPECG_HEADER_LEN scp
                      + sum_list (map (\<lambda>sect_id. SECTION_HEADER_LEN scp + length (s sect_id))
                                      (present_sections s))))
     @ concat (map (\<lambda>sect_id. pack_section scp sect_id (s sect_id)) (present_sections s))"

text \<open>
  The checksum: the 16-bit CRC with the CCITT polynomial \<open>x^16 + x^12 + x^5 + 1\<close>, as a shift
  register fed with the message bits, the most significant bit of each byte first. A message
  bit that differs from the bit shifted out of the register XORs the polynomial \<open>0x1021\<close>
  into it. The register starts at the initial value, and the checksum is the register as it
  is after the last bit, with no final XOR.
\<close>

definition crc_ccitt_bit :: "bool \<Rightarrow> 16 word \<Rightarrow> 16 word" where
  "crc_ccitt_bit m r = (if bit r 15 \<noteq> m then push_bit 1 r XOR 0x1021 else push_bit 1 r)"

definition message_bits :: "bytes \<Rightarrow> bool list" where
  "message_bits bs = concat (map (\<lambda>b. map (bit b) [7, 6, 5, 4, 3, 2, 1, 0]) bs)"

definition crc_ccitt :: "16 word \<Rightarrow> bytes \<Rightarrow> 16 word" where
  "crc_ccitt init bs = fold crc_ccitt_bit (message_bits bs) init"

section \<open>A sample module and sample recordings\<close>

text \<open>
  One instance of the parameters, to run the model on concrete recordings: lengths and codes
  as in EN 1064, pointer fields of 10 bytes, tags as tag, length, value, and section headers
  of 16 bytes that start with the CRC of the rest of the section.
\<close>

definition ascii :: "string \<Rightarrow> bytes" where
  "ascii str = map (\<lambda>c. of_nat (of_char c)) str"

definition sample_module :: scp_module where
  "sample_module =
     \<lparr>SCPECG_HEADER_LEN = 6, SECTION_HEADER_LEN = 16, POINTER_FIELD_LEN = 10,
      LEAD_I = 1, LEAD_II = 2, LEAD_III = 61, LEAD_AVR = 62, LEAD_AVL = 63, LEAD_AVF = 64,
      LEAD_V1 = 3, LEAD_V2 = 4, LEAD_V3 = 5, LEAD_V4 = 6, LEAD_V5 = 7, LEAD_V6 = 8,
      SEX_UNKNOWN = 0, SEX_MALE = 1, SEX_FEMALE = 2,
      WEIGHT_UNSPECIFIED = 0, WEIGHT_KILOGRAM = 1, AGE_UNSPECIFIED = 0, AGE_YEARS = 1,
      ALL_SIMULTANEOUS_READ = 4, ENCODING_REAL = 0, BIMODAL_COMPRESSION_FALSE = 0,
      TAG_PATIENT_ID = 2, TAG_ECG_SEQ_NUM = 31, TAG_PATIENT_LAST_NAME = 0, TAG_PATIENT_SEX = 8,
      TAG_PATIENT_WEIGHT = 7, TAG_PATIENT_AGE = 4, TAG_DATE_ACQ = 25, TAG_TIME_ACQ = 26,
      TAG_ACQ_DEV_ID = 14, TAG_EOF = 255,
      make_pointer_field =
        (\<lambda>sect_id len index. le_bytes 2 (int sect_id) @ le_bytes 4 (int len) @ le_bytes 4 (int index)),
      make_tag = (\<lambda>tag v. le_bytes 1 (int tag) @ le_bytes 2 (int (length v)) @ v),
      make_asciiz = (\<lambda>str. ascii str @ [0]),
      make_3bytes_intval_unit = (\<lambda>v unit. le_bytes 2 v @ [unit]),
      make_date = (\<lambda>t. le_bytes 2 (int (year t)) @ le_bytes 1 (int (month t)) @ le_bytes 1 (int (day t))),
      make_time =
        (\<lambda>t. le_bytes 1 (int (hour t)) @ le_bytes 1 (int (minute t)) @ le_bytes 1 (int (second t))),
      make_machine_id = (\<lambda>str. replicate 8 0 @ ascii str @ [0]),
      pack_section =
        (\<lambda>sect_id v.
           let body = le_bytes 2 (int sect_id) @ le_bytes 4 (int (16 + length v)) @ [20, 20]
                      @ replicate 6 0 @ v
           in le_bytes 2 (uint (crc_hqx body 0xFFFF)) @ body)\<rparr>"

text \<open>Two leads of three samples, with the attributes \<open>__init__\<close> sets.\<close>

definition sample_data :: ndarray where
  "sample_data = \<lparr>shape0 = 2, shape1 = 3, item = (\<lambda>i j. word_of_int (int j * 1000 - 1500 + int i))\<rparr>"

definition sample_ecg :: ecg where
  "sample_ecg = new_ecg sample_data"

text \<open>Thirteen leads of one sample.\<close>

definition thirteen_leads :: ecg where
  "thirteen_leads = new_ecg (np_zeros 13 1)"

text \<open>One lead of 32768 samples, each of them 40000.\<close>

definition loud_ecg :: ecg where
  "loud_ecg = new_ecg \<lparr>shape0 = 1, shape1 = 32768, item = (\<lambda>i j. 40000)\<rparr>"

text \<open>One lead of \<open>2^32\<close> samples, each of them 0.\<close>

definition long_ecg :: ecg where
  "long_ecg = new_ecg (np_zeros 1 4294967296)"

text \<open>One lead of 40000 samples: the first 32767 are 7, the others 40000, which does not fit
  16 bits signed.\<close>

definition capped_ecg :: ecg where
  "capped_ecg =
     new_ecg \<lparr>shape0 = 1, shape1 = 40000, item = (\<lambda>i j. if j < 32767 then 7 else 40000)\<rparr>"

text \<open>A file system with no file, where every path can be opened and written without limit;
  and one where no path can be opened.\<close>

definition empty_disk :: filesystem where
  "empty_disk = \<lparr>files = Map.empty, can_open = (\<lambda>name. True), write_limit = (\<lambda>name. None)\<rparr>"

definition locked_disk :: filesystem where
  "locked_disk = \<lparr>files = Map.empty, can_open = (\<lambda>name. False), write_limit = (\<lambda>name. None)\<rparr>"

section \<open>Packing and the payload steps\<close>

lemma length_le_bytes: "length (le_bytes k n) = k"
  by (induction k arbitrary: n) simp_all

lemma run_all_append:
  "run_all (xs @ ys) acc = (case run_all xs acc of Inl x \<Rightarrow> Inl x | Inr a \<Rightarrow> run_all ys a)"
  by (induction xs arbitrary: acc) (simp_all split: sum.splits)

lemma run_all_map_ok:
  assumes "\<And>x a. x \<in> set xs \<Longrightarrow> g x a = Inr (a @ f x)"
  shows "run_all (map g xs) acc = Inr (acc @ concat (map f xs))"
  using assms by (induction xs arbitrary: acc) simp_all

lemma upt_0_12: "[0..<12] = [0, 1, 2, 3, 4, 5, 6, 7, 8, 9, 10, 11 :: nat]"
  by (simp add: upt_rec)

lemma leads_order_lookup:
  "LEADS_ORDER_GENERAL scp i = (if i < 12 then Some (canonical_lead_codes scp ! i) else None)"
proof -
  have table: "LEADS_ORDER_GENERAL scp = map_of (zip [0..<12] (canonical_lead_codes scp))"
    by (simp only: upt_0_12) (simp add: LEADS_ORDER_GENERAL_def canonical_lead_codes_def)
  have len: "length [0..<12] = length (canonical_lead_codes scp)"
    by (simp add: canonical_lead_codes_def)
  show ?thesis
  proof (cases "i < 12")
    case True
    then have "map_of (zip [0..<12] (canonical_lead_codes scp)) ([0..<12] ! i)
        = Some (canonical_lead_codes scp ! i)"
      by (intro map_of_zip_nth [OF len]) (simp_all add: canonical_lead_codes_def)
    then show ?thesis using True by (simp add: table del: upt_Suc)
  next
    case False
    then have "i \<notin> set [0..<12]" by simp
    then have "map_of (zip [0..<12] (canonical_lead_codes scp)) i = None"
      using map_of_zip_is_None [OF len, of i] by simp
    then show ?thesis using False by (simp add: table)
  qed
qed

lemma flag_byte_fits:
  assumes "n < 32"
  shows "0 \<le> (0 OR uint (a :: byte)) OR push_bit 3 (int n)"
    and "(0 OR uint (a :: byte)) OR push_bit 3 (int n) < 256"
proof -
  have a: "0 \<le> uint a" "uint a < 2 ^ 8" using uint_lt2p [of a] by simp_all
  have n: "0 \<le> push_bit 3 (int n)" "push_bit 3 (int n) < 2 ^ 8"
    using assms by (simp_all add: push_bit_eq_mult)
  show "0 \<le> (0 OR uint a) OR push_bit 3 (int n)" using a n by simp
  have "uint a OR push_bit 3 (int n) < 2 ^ 8" using a n by (intro OR_upper) simp_all
  then show "(0 OR uint a) OR push_bit 3 (int n) < 256" by simp
qed

lemma flag_byte_overflows:
  assumes "32 \<le> n"
  shows "256 \<le> (0 OR uint (a :: byte)) OR push_bit 3 (int n)"
proof -
  have "push_bit 3 (int n) \<le> push_bit 3 (int n) OR uint a"
    by (rule or_greater_eq) simp
  moreover have "256 \<le> push_bit 3 (int n)" using assms by (simp add: push_bit_eq_mult)
  ultimately show ?thesis by (simp add: or.commute)
qed

lemma emit_Inr: "emit (Inr b) acc = Inr (acc @ b)"
  by (simp add: emit_def)

lemma lead_entry_ok:
  assumes "i < 12" and "n_samples e < 4294967296"
  shows "lead_entry scp e i acc =
         Inr (acc @ le_bytes 4 1 @ le_bytes 4 (int (n_samples e)) @ [canonical_lead_codes scp ! i])"
  using assms by (simp add: lead_entry_def leads_order_lookup pack_I_def emit_def pack_byte_def)

lemma lead_entry_missing: "12 \<le> i \<Longrightarrow> lead_entry scp e i acc = Inl (KeyError i, acc)"
  by (simp add: lead_entry_def leads_order_lookup)

lemma lead_entry_too_long:
  assumes "i < 12" and "4294967296 \<le> n_samples e"
  shows "lead_entry scp e i acc = Inl (StructError, acc @ le_bytes 4 1)"
  using assms by (simp add: lead_entry_def leads_order_lookup pack_I_def emit_def)

lemma section3_head:
  assumes "n_leads e < 32"
  shows "section3 scp e =
         run_all (map (lead_entry scp e) [0..<n_leads e])
           (le_bytes 1 (int (n_leads e))
            @ le_bytes 1 (uint (ALL_SIMULTANEOUS_READ scp) OR push_bit 3 (int (n_leads e))))"
proof -
  have "pack_B (int (n_leads e)) = Inr (le_bytes 1 (int (n_leads e)))"
    using assms by (simp add: pack_B_def)
  moreover have "pack_B ((0 OR uint (ALL_SIMULTANEOUS_READ scp)) OR push_bit 3 (int (n_leads e)))
      = Inr (le_bytes 1 (uint (ALL_SIMULTANEOUS_READ scp) OR push_bit 3 (int (n_leads e))))"
    using flag_byte_fits [OF assms, of "ALL_SIMULTANEOUS_READ scp"] by (simp add: pack_B_def)
  ultimately show ?thesis
    by (simp add: section3_def Let_def emit_def)
qed

lemma section3_ok:
  assumes "n_leads e \<le> 12" and "n_samples e < 4294967296"
  shows "section3 scp e = Inr (section3_layout scp e)"
proof -
  have "n_leads e < 32" using assms(1) by simp
  moreover have "\<And>i a. i \<in> set [0..<n_leads e] \<Longrightarrow>
      lead_entry scp e i a =
      Inr (a @ (le_bytes 4 1 @ le_bytes 4 (int (n_samples e)) @ [canonical_lead_codes scp ! i]))"
    using assms by (simp add: lead_entry_ok)
  ultimately show ?thesis
    by (simp only: section3_head run_all_map_ok section3_layout_def append_assoc)
qed

lemma section3_too_many_leads:
  assumes "12 < n_leads e"
  shows "\<exists>part. section3 scp e =
           Inl (if 32 \<le> n_leads e \<or> 4294967296 \<le> n_samples e then StructError else KeyError 12,
                part)"
proof -
  consider (huge) "256 \<le> n_leads e" | (flag) "32 \<le> n_leads e" "n_leads e < 256"
    | (long) "n_leads e < 32" "4294967296 \<le> n_samples e"
    | (key) "n_leads e < 32" "n_samples e < 4294967296"
    by linarith
  then show ?thesis
  proof cases
    case huge
    then have "pack_B (int (n_leads e)) = Inl StructError" by (simp add: pack_B_def)
    then show ?thesis using huge by (simp add: section3_def Let_def emit_def)
  next
    case flag
    have "pack_B (int (n_leads e)) = Inr (le_bytes 1 (int (n_leads e)))"
      using flag by (simp add: pack_B_def)
    moreover have "pack_B ((0 OR uint (ALL_SIMULTANEOUS_READ scp)) OR push_bit 3 (int (n_leads e)))
        = Inl StructError"
      using flag_byte_overflows [OF flag(1), of "ALL_SIMULTANEOUS_READ scp"]
      by (simp add: pack_B_def)
    ultimately show ?thesis using flag by (simp add: section3_def Let_def emit_def)
  next
    case long
    have "[0..<n_leads e] = 0 # [1..<n_leads e]"
      using assms by (simp add: upt_conv_Cons)
    then show ?thesis
      using long by (simp add: section3_head lead_entry_too_long)
  next
    case key
    have "[0..<n_leads e] = [0..<12] @ [12..<n_leads e]"
      using upt_add_eq_append [of 0 12 "n_leads e - 12"] assms by simp
    moreover have "[12..<n_leads e] = 12 # [13..<n_leads e]"
      using assms by (simp add: upt_conv_Cons)
    ultimately have split: "[0..<n_leads e] = [0..<12] @ 12 # [13..<n_leads e]"
      by simp
    have first: "\<And>acc. run_all (map (lead_entry scp e) [0..<12]) acc =
        Inr (acc @ concat (map (\<lambda>i. le_bytes 4 1 @ le_bytes 4 (int (n_samples e))
                                     @ [canonical_lead_codes scp ! i]) [0..<12]))"
      by (rule run_all_map_ok) (use key in \<open>simp add: lead_entry_ok\<close>)
    show ?thesis
      using key
      by (simp only: section3_head split map_append run_all_append first list.map run_all.simps
            lead_entry_missing [OF order_refl] sum.case) simp
  qed
qed

section \<open>The CRC of the standard library is the CCITT checksum\<close>

text \<open>
  \<open>crc_hqx\<close> works a byte at a time: it XORs the byte into the high half of the register and
  shifts eight times. \<open>crc_ccitt\<close> feeds the message bit by bit. Both shift steps are linear
  for XOR, which reduces their agreement on a byte to the eight bits of the byte.
\<close>

lemma byte_in_high_bits:
  "push_bit 8 (ucast (b ::byte)) =
     push_bit 15 (of_bool (bit b 7)) XOR push_bit 14 (of_bool (bit b 6))
     XOR push_bit 13 (of_bool (bit b 5)) XOR push_bit 12 (of_bool (bit b 4))
     XOR push_bit 11 (of_bool (bit b 3)) XOR push_bit 10 (of_bool (bit b 2))
     XOR push_bit 9 (of_bool (bit b 1)) XOR (push_bit 8 (of_bool (bit b 0)) :: 16 word)"
proof (rule bit_word_eqI)
  fix pos :: nat
  assume "pos < LENGTH(16)"
  then have pos: "pos < 8 \<or> pos = 15 \<or> pos = 14 \<or> pos = 13 \<or> pos = 12 \<or> pos = 11
      \<or> pos = 10 \<or> pos = 9 \<or> pos = 8"
    by simp presburger
  show "bit (push_bit 8 (ucast b :: 16 word)) pos =
     bit (push_bit 15 (of_bool (bit b 7)) XOR push_bit 14 (of_bool (bit b 6))
     XOR push_bit 13 (of_bool (bit b 5)) XOR push_bit 12 (of_bool (bit b 4))
     XOR push_bit 11 (of_bool (bit b 3)) XOR push_bit 10 (of_bool (bit b 2))
     XOR push_bit 9 (of_bool (bit b 1)) XOR (push_bit 8 (of_bool (bit b 0)) :: 16 word)) pos"
    using pos by (elim disjE) (simp_all add: bit_simps)
qed

lemma crc_shift_zero: "crc_shift k 0 = 0"
  by (induction k) simp_all

lemma crc_shift_Suc_outer: "crc_shift (Suc k) c = crc_shift 1 (crc_shift k c)"
  by (induction k arbitrary: c) simp_all

lemma crc_step_xor:
  "(if bit (a XOR b) 15 then push_bit 1 (a XOR b) XOR 0x1021 else push_bit 1 (a XOR b)) =
   (if bit a 15 then push_bit 1 a XOR 0x1021 else push_bit 1 a)
   XOR (if bit b 15 then push_bit 1 b XOR 0x1021 else push_bit 1 b)"
  for a b :: "16 word"
  by (simp add: bit_xor_iff push_bit_xor xor.assoc xor.left_commute xor.commute)

lemma crc_shift_xor: "crc_shift n (a XOR b) = crc_shift n a XOR crc_shift n b"
  by (induction n arbitrary: a b) (simp_all only: crc_shift.simps crc_step_xor)

lemma crc_shift_if: "crc_shift k (if p then x else 0) = (if p then crc_shift k x else 0)"
  by (simp add: crc_shift_zero)

lemma crc_shift_8_steps:
  "crc_shift 8 c =
   crc_shift 1 (crc_shift 1 (crc_shift 1 (crc_shift 1
     (crc_shift 1 (crc_shift 1 (crc_shift 1 (crc_shift 1 c)))))))"
proof -
  have "crc_shift 8 c = crc_shift (Suc (Suc (Suc (Suc (Suc (Suc (Suc (Suc 0)))))))) c"
    by (simp add: eval_nat_numeral)
  also have "\<dots> = crc_shift 1 (crc_shift 1 (crc_shift 1 (crc_shift 1
     (crc_shift 1 (crc_shift 1 (crc_shift 1 (crc_shift 1 c)))))))"
    by (simp only: crc_shift_Suc_outer crc_shift.simps(1))
  finally show ?thesis .
qed

lemma crc_steps_of_poly:
  "crc_shift 1 0x1021 = 0x2042"
  "crc_shift 1 0x2042 = 0x4084"
  "crc_shift 1 0x4084 = 0x8108"
  "crc_shift 1 0x8108 = 0x1231"
  "crc_shift 1 0x1231 = 0x2462"
  "crc_shift 1 0x2462 = 0x48C4"
  "crc_shift 1 0x48C4 = 0x9188"
  by code_simp+

lemma crc_shift_8_high_bit:
  "crc_shift 8 (push_bit 8 (of_bool p)) = (if p then 0x1021 else 0)"
  "crc_shift 8 (push_bit 9 (of_bool p)) = (if p then 0x2042 else 0)"
  "crc_shift 8 (push_bit 10 (of_bool p)) = (if p then 0x4084 else 0)"
  "crc_shift 8 (push_bit 11 (of_bool p)) = (if p then 0x8108 else 0)"
  "crc_shift 8 (push_bit 12 (of_bool p)) = (if p then 0x1231 else 0)"
  "crc_shift 8 (push_bit 13 (of_bool p)) = (if p then 0x2462 else 0)"
  "crc_shift 8 (push_bit 14 (of_bool p)) = (if p then 0x48C4 else 0)"
  "crc_shift 8 (push_bit 15 (of_bool p)) = (if p then 0x9188 else 0)"
  by (cases p; simp; code_simp)+

lemma crc_ccitt_bit_xor:
  "crc_ccitt_bit m r = crc_shift 1 r XOR (if m then 0x1021 else 0)"
proof (cases m)
  case True
  have top: "bit (0x8000 :: 16 word) 15" "push_bit 1 (0x8000 :: 16 word) = 0"
    by code_simp+
  have step: "crc_shift 1 x = (if bit x 15 then push_bit 1 x XOR 0x1021 else push_bit 1 x)" for x
    by simp
  have "crc_ccitt_bit True r = crc_shift 1 (r XOR 0x8000)"
    by (simp only: crc_ccitt_bit_def step bit_xor_iff push_bit_xor top xor.right_neutral)
  also have "\<dots> = crc_shift 1 r XOR crc_shift 1 0x8000"
    by (rule crc_shift_xor)
  also have "crc_shift 1 0x8000 = 0x1021"
    by code_simp
  finally show ?thesis using True by simp
next
  case False
  then show ?thesis by (simp add: crc_ccitt_bit_def)
qed

lemma crc_ccitt_byte:
  "fold crc_ccitt_bit (map (bit b) [7, 6, 5, 4, 3, 2, 1, 0]) c =
   crc_shift 8 (c XOR push_bit 8 (ucast b))"
  for b :: byte
  apply (simp only: byte_in_high_bits)
  apply (simp only: crc_shift_xor crc_shift_8_high_bit)
  apply (simp only: list.map fold_simps o_apply crc_ccitt_bit_xor crc_shift_xor crc_shift_if
        crc_steps_of_poly crc_shift_8_steps ac_simps)
  done

lemma message_bits_Cons:
  "message_bits (b # bs) = map (bit b) [7, 6, 5, 4, 3, 2, 1, 0] @ message_bits bs"
  by (simp add: message_bits_def)

lemma crc_hqx_is_crc_ccitt: "crc_hqx bs v = crc_ccitt v bs"
proof -
  have "fold crc_ccitt_bit (message_bits bs) v = fold crc_update bs v"
  proof (induction bs arbitrary: v)
    case Nil
    show ?case by (simp add: message_bits_def)
  next
    case (Cons b bs)
    show ?case
      by (simp only: message_bits_Cons fold_append o_apply crc_ccitt_byte fold_simps
            crc_update_def [symmetric] Cons.IH)
  qed
  then show ?thesis by (simp add: crc_hqx_def crc_ccitt_def)
qed

lemma crc_ccitt_check_values:
  "crc_ccitt 0xFFFF [0x31, 0x32, 0x33, 0x34, 0x35, 0x36, 0x37, 0x38, 0x39] = 0x29B1"
  "crc_ccitt 0 [0x31, 0x32, 0x33, 0x34, 0x35, 0x36, 0x37, 0x38, 0x39] = 0x31C3"
  by code_simp+

section \<open>The section payloads\<close>

lemma pack_h_sample: "sample_fits w \<Longrightarrow> pack_h (sint w) = Inr (le_bytes 2 (sint w))"
  by (simp add: sample_fits_def pack_h_def)

lemma serie_ok:
  assumes "list_all (\<lambda>j. sample_fits (item (data e) i j)) [0..<n]"
  shows "serie e n i = Inr (concat (map (\<lambda>j. le_bytes 2 (sint (item (data e) i j))) [0..<n]))"
proof -
  have "run_all (map (\<lambda>j. emit (pack_h (sint (item (data e) i j)))) [0..<n]) [] =
        Inr ([] @ concat (map (\<lambda>j. le_bytes 2 (sint (item (data e) i j))) [0..<n]))"
    by (rule run_all_map_ok) (use assms in \<open>simp add: list_all_iff pack_h_sample emit_Inr\<close>)
  then show ?thesis by (simp add: serie_def)
qed

lemma append_serie_ok:
  assumes "list_all (\<lambda>j. sample_fits (item (data e) i j)) [0..<n]"
  shows "append_serie e n i acc =
         Inr (acc @ concat (map (\<lambda>j. le_bytes 2 (sint (item (data e) i j))) [0..<n]))"
  by (simp add: append_serie_def serie_ok [OF assms])

lemma concat_replicate_map: "concat (map (\<lambda>i. b) xs) = concat (replicate (length xs) b)"
  by (induction xs) simp_all

lemma section6_ok:
  assumes ampl: "pack_H (ampl_nanovolt e) = Inr a"
    and rate: "sample_time_interval_of (sample_rate e) = Inr t"
    and interval: "pack_H t = Inr tb"
    and fit: "encoded_samples_fit e"
  shows "section6 scp e = Inr (section6_layout scp e a tb)"
proof -
  let ?n = "min (n_samples e) 32767"
  have count: "emit (pack_H (int ?n * 2)) acc = Inr (acc @ le_bytes 2 (2 * int ?n))" for acc
    by (simp add: pack_H_def emit_def mult.commute)
  have counts: "\<And>acc. run_all (map (\<lambda>i. emit (pack_H (int ?n * 2))) [0..<n_leads e]) acc =
      Inr (acc @ concat (map (\<lambda>i. le_bytes 2 (2 * int ?n)) [0..<n_leads e]))"
    by (rule run_all_map_ok) (rule count)
  have series: "\<And>acc. run_all (map (append_serie e ?n) [0..<n_leads e]) acc =
      Inr (acc @ concat (map (\<lambda>i. concat (map (\<lambda>j. le_bytes 2 (sint (item (data e) i j))) [0..<?n]))
                             [0..<n_leads e]))"
    by (rule run_all_map_ok)
      (use fit in \<open>simp add: encoded_samples_fit_def list_all_iff append_serie_ok\<close>)
  show ?thesis
    by (simp add: section6_def Let_def rate ampl interval emit_Inr run_all_append counts series
        section6_layout_def pack_byte_def concat_replicate_map)
qed

section \<open>The dictionary, the record and the file\<close>

lemma pointer_loop_empty:
  assumes "\<forall>k \<in> set ids. s k = []"
  shows "pointer_loop scp s ids (tab, index) =
         (tab @ concat (map (\<lambda>k. make_pointer_field scp k 0 index) ids), index)"
  using assms by (induction ids arbitrary: tab) simp_all

lemma section0_empty:
  "section0 scp empty_sections =
   pointer_fields scp
     ((0, SECTION_HEADER_LEN scp + POINTER_FIELD_LEN scp * 12, SCPECG_HEADER_LEN scp + 1)
      # map (\<lambda>sect_id. (sect_id, 0, SCPECG_HEADER_LEN scp + 1
                                     + (SECTION_HEADER_LEN scp + POINTER_FIELD_LEN scp * 12)))
            [1..<12])"
proof -
  have "\<forall>k \<in> set [1..<12]. empty_sections k = []" by (simp add: empty_sections_def)
  then show ?thesis
    by (simp only: section0_def Let_def pointer_loop_empty fst_conv pointer_fields_def
          list.map concat.simps map_map o_def case_prod_conv)
qed

lemma build_sections_unfold:
  "build_sections scp e =
     (case section3 scp e of
        Inl (err, part) \<Rightarrow> Inl (err, sections_with scp e part [])
      | Inr p3 \<Rightarrow>
          (case section6 scp e of
             Inl (err, part) \<Rightarrow> Inl (err, sections_with scp e p3 part)
           | Inr p6 \<Rightarrow> Inr (sections_with scp e p3 p6)))"
proof -
  have "empty_sections(0 := a, 1 := b, 3 := c) = empty_sections(0 := a, 1 := b, 3 := c, 6 := [])"
    for a b c
    by (rule ext) (simp add: empty_sections_def)
  then show ?thesis
    by (simp add: build_sections_def Let_def sections_with_def split: sum.splits prod.splits)
qed

lemma sections_at_end_build:
  "\<exists>p3 p6. sections_at_end (build_sections scp e) = sections_with scp e p3 p6"
  by (auto simp: build_sections_unfold sections_at_end_def split: sum.splits prod.splits)

lemma sections_with_simps:
  "sections_with scp e p3 p6 0 = section0 scp empty_sections"
  "sections_with scp e p3 p6 1 = section1 scp e"
  "sections_with scp e p3 p6 2 = []"
  "sections_with scp e p3 p6 3 = p3"
  "sections_with scp e p3 p6 4 = []"
  "sections_with scp e p3 p6 5 = []"
  "sections_with scp e p3 p6 6 = p6"
  "sections_with scp e p3 p6 7 = []"
  "sections_with scp e p3 p6 8 = []"
  "sections_with scp e p3 p6 9 = []"
  "sections_with scp e p3 p6 10 = []"
  "sections_with scp e p3 p6 11 = []"
  by (simp_all add: sections_with_def empty_sections_def)

lemma fold_size:
  "fold (\<lambda>k size. if length (s k) > 0 then size + (c + length (s k)) else size) ks h =
   h + sum_list (map (\<lambda>k. c + length (s k)) (filter (\<lambda>k. s k \<noteq> []) ks))"
  by (induction ks arbitrary: h) simp_all

lemma fold_blocks:
  "fold (\<lambda>k acc. if length (s k) > 0 then acc @ f k else acc) ks a =
   a @ concat (map f (filter (\<lambda>k. s k \<noteq> []) ks))"
  by (induction ks arbitrary: a) simp_all

lemma present_sections_with:
  "present_sections (sections_with scp e p3 p6) =
   filter (\<lambda>k. sections_with scp e p3 p6 k \<noteq> []) [0, 1, 2, 3, 6]"
  by (simp add: present_sections_def upt_0_12 sections_with_simps)

lemma record_size_sections_with:
  "record_size scp (sections_with scp e p3 p6) =
   SCPECG_HEADER_LEN scp
   + sum_list (map (\<lambda>k. SECTION_HEADER_LEN scp + length (sections_with scp e p3 p6 k))
                   (present_sections (sections_with scp e p3 p6)))"
  by (simp only: record_size_def fold_size present_sections_with)

lemma assemble_sections_with:
  "assemble scp (sections_with scp e p3 p6) =
     (if record_size scp (sections_with scp e p3 p6) < 4294967296
      then Inr (record_layout scp (sections_with scp e p3 p6)) else Inl StructError)"
proof -
  let ?s = "sections_with scp e p3 p6"
  have blocks: "fold (\<lambda>k acc. if length (?s k) > 0 then acc @ pack_section scp k (?s k) else acc)
                  [0, 1, 2, 3, 6] a =
                a @ concat (map (\<lambda>k. pack_section scp k (?s k)) (present_sections ?s))" for a
    by (simp only: fold_blocks present_sections_with)
  have layout: "record_layout scp ?s =
      le_bytes 4 (int (record_size scp ?s))
      @ concat (map (\<lambda>k. pack_section scp k (?s k)) (present_sections ?s))"
    by (simp only: record_layout_def record_size_sections_with)
  show ?thesis
  proof (cases "record_size scp ?s < 4294967296")
    case True
    then have "pack_I (int (record_size scp ?s)) = Inr (le_bytes 4 (int (record_size scp ?s)))"
      by (simp add: pack_I_def)
    then show ?thesis using True by (simp only: assemble_def blocks layout sum.case if_True)
  next
    case False
    then have "pack_I (int (record_size scp ?s)) = Inl StructError"
      by (simp add: pack_I_def)
    then show ?thesis using False by (simp only: assemble_def sum.case if_False)
  qed
qed

lemma pack_H_crc: "pack_H (uint (c :: 16 word)) = Inr (le_bytes 2 (uint c))"
  using uint_lt2p [of c] by (simp add: pack_H_def)

lemma export_scp_unfold:
  "export_scp scp e fn fs =
     (case build_record scp e of
        Inl err \<Rightarrow> (Inl err, fs)
      | Inr rcd \<Rightarrow>
          (case write_file fn (le_bytes 2 (uint (crc_hqx rcd 0xFFFF)) @ rcd) fs of
             (Inl err, fs') \<Rightarrow> (Inl err, fs')
           | (Inr u, fs') \<Rightarrow> (Inr fn, fs')))"
  by (simp add: export_scp_def pack_H_crc split: sum.splits)

lemma write_file_accepted:
  assumes "accepts fs name (length content)"
  shows "write_file name content fs = (Inr (), fs\<lparr>files := (files fs)(name \<mapsto> content)\<rparr>)"
  using assms by (auto simp: write_file_def accepts_def split: option.splits)

lemma write_file_refused:
  assumes "\<not> can_open fs name"
  shows "write_file name content fs = (Inl OSError, fs)"
  using assms by (simp add: write_file_def)

lemma section1_as_fields:
  "section1 scp e = concat (map (\<lambda>(tag, v). make_tag scp tag v) (section1_fields scp e))"
  by (simp add: section1_def section1_fields_def Let_def)

lemma sections_at_end_0: "sections_at_end (build_sections scp e) 0 = section0 scp empty_sections"
proof -
  obtain p3 p6 where "sections_at_end (build_sections scp e) = sections_with scp e p3 p6"
    using sections_at_end_build by blast
  then show ?thesis by (simp only: sections_with_simps)
qed

lemma sections_at_end_1: "sections_at_end (build_sections scp e) 1 = section1 scp e"
proof -
  obtain p3 p6 where "sections_at_end (build_sections scp e) = sections_with scp e p3 p6"
    using sections_at_end_build by blast
  then show ?thesis by (simp only: sections_with_simps)
qed

lemma build_record_Inr:
  assumes "build_record scp e = Inr rcd"
  obtains p3 p6 where "section3 scp e = Inr p3" and "section6 scp e = Inr p6"
    and "build_sections scp e = Inr (sections_with scp e p3 p6)"
    and "record_size scp (sections_with scp e p3 p6) < 4294967296"
    and "rcd = record_layout scp (sections_with scp e p3 p6)"
proof -
  from assms obtain s where s: "build_sections scp e = Inr s" and a: "assemble scp s = Inr rcd"
    by (auto simp: build_record_def split: sum.splits prod.splits)
  from s obtain p3 p6 where p: "section3 scp e = Inr p3" "section6 scp e = Inr p6"
    and s': "s = sections_with scp e p3 p6"
    by (auto simp: build_sections_unfold split: sum.splits prod.splits)
  from a have "record_size scp (sections_with scp e p3 p6) < 4294967296"
    and "rcd = record_layout scp (sections_with scp e p3 p6)"
    unfolding s' assemble_sections_with by (simp_all split: if_splits)
  with p s s' show thesis using that by blast
qed

lemma build_record_ok:
  assumes "section3 scp e = Inr p3" and "section6 scp e = Inr p6"
    and "record_size scp (sections_with scp e p3 p6) < 4294967296"
  shows "build_record scp e = Inr (record_layout scp (sections_with scp e p3 p6))"
  using assms by (simp add: build_record_def build_sections_unfold assemble_sections_with)

section \<open>How the export fails, and when it succeeds\<close>

lemma section3_key_error:
  assumes "12 < n_leads e" and "n_leads e < 32" and "n_samples e < 4294967296"
  shows "section3 scp e =
         Inl (KeyError 12,
              le_bytes 1 (int (n_leads e))
              @ le_bytes 1 (uint (ALL_SIMULTANEOUS_READ scp) OR push_bit 3 (int (n_leads e)))
              @ concat (map (\<lambda>i. le_bytes 4 1 @ le_bytes 4 (int (n_samples e))
                                  @ [canonical_lead_codes scp ! i]) [0..<12]))"
proof -
  have "[0..<n_leads e] = [0..<12] @ [12..<n_leads e]"
    using upt_add_eq_append [of 0 12 "n_leads e - 12"] assms by simp
  moreover have "[12..<n_leads e] = 12 # [13..<n_leads e]"
    using assms by (simp add: upt_conv_Cons)
  ultimately have split: "[0..<n_leads e] = [0..<12] @ 12 # [13..<n_leads e]"
    by simp
  have first: "\<And>acc. run_all (map (lead_entry scp e) [0..<12]) acc =
      Inr (acc @ concat (map (\<lambda>i. le_bytes 4 1 @ le_bytes 4 (int (n_samples e))
                                   @ [canonical_lead_codes scp ! i]) [0..<12]))"
    by (rule run_all_map_ok) (use assms in \<open>simp add: lead_entry_ok\<close>)
  show ?thesis
    using assms
    by (simp only: section3_head split map_append run_all_append first list.map run_all.simps
          lead_entry_missing [OF order_refl] sum.case append_assoc)
qed

lemma export_scp_raises:
  assumes "section3 scp e = Inl (err, part)"
  shows "export_scp scp e fn fs = (Inl err, fs)"
  using assms by (simp add: export_scp_unfold build_record_def build_sections_unfold)

lemma export_scp_raises_in_section6:
  assumes "section3 scp e = Inr p3" and "section6 scp e = Inl (err, part)"
  shows "export_scp scp e fn fs = (Inl err, fs)"
  using assms by (simp add: export_scp_unfold build_record_def build_sections_unfold)

lemma sections_at_end_3:
  assumes "section3 scp e = Inr p3"
  shows "sections_at_end (build_sections scp e) 3 = p3"
  using assms
  by (auto simp: build_sections_unfold sections_at_end_def sections_with_simps
      split: sum.splits prod.splits)

lemma sections_at_end_3_raised:
  assumes "section3 scp e = Inl (err, part)"
  shows "sections_at_end (build_sections scp e) 3 = part"
  using assms
  by (auto simp: build_sections_unfold sections_at_end_def sections_with_simps)

lemma sections_at_end_6:
  assumes "section3 scp e = Inr p3" and "section6 scp e = Inr p6"
  shows "sections_at_end (build_sections scp e) 6 = p6"
  using assms
  by (auto simp: build_sections_unfold sections_at_end_def sections_with_simps)

lemma export_scp_written:
  assumes "build_record scp e = Inr rcd"
    and "accepts fs fn (length rcd + 2)"
  shows "export_scp scp e fn fs =
    (Inr fn, fs\<lparr>files := (files fs)(fn \<mapsto> le_bytes 2 (uint (crc_hqx rcd 0xFFFF)) @ rcd)\<rparr>)"
proof -
  have "accepts fs fn (length (le_bytes 2 (uint (crc_hqx rcd 0xFFFF)) @ rcd))"
    using assms(2) by (simp add: length_le_bytes)
  then show ?thesis
    by (simp add: export_scp_unfold assms(1) write_file_accepted)
qed

lemma export_scp_ok:
  assumes "section3 scp e = Inr p3" and "section6 scp e = Inr p6"
    and "record_size scp (sections_with scp e p3 p6) < 4294967296"
    and "accepts fs fn (length (record_layout scp (sections_with scp e p3 p6)) + 2)"
  shows "fst (export_scp scp e fn fs) = Inr fn"
  using export_scp_written [OF build_record_ok [OF assms(1-3)] assms(4)] by simp

section \<open>The sample module on the sample recording\<close>

lemma le_bytes_numeral:
  "le_bytes 1 n = [word_of_int n]"
  "le_bytes 2 n = [word_of_int n, word_of_int (n div 256)]"
  "le_bytes 4 n = [word_of_int n, word_of_int (n div 256), word_of_int (n div 256 div 256),
                   word_of_int (n div 256 div 256 div 256)]"
  by (simp_all add: numeral_eq_Suc)

lemma sample_ecg_simps:
  "n_leads sample_ecg = 2" "n_samples sample_ecg = 3"
  "sample_rate sample_ecg = 500" "ampl_nanovolt sample_ecg = 5000"
  by (simp_all add: sample_ecg_def new_ecg_def sample_data_def n_leads_def n_samples_def)

lemma upt_1_12: "[1..<12] = [1, 2, 3, 4, 5, 6, 7, 8, 9, 10, 11 :: nat]"
  by (simp add: upt_rec)

lemma upt_small: "[0..<2] = [0, 1]" "[0..<3] = [0, 1, 2]" "[0..<1] = [0]"
  by (simp_all add: upt_rec)

lemma replicate_2: "replicate 2 x = [x, x]"
  by (simp add: numeral_2_eq_2)

lemma sample_ecg_fits: "encoded_samples_fit sample_ecg"
  by (simp add: encoded_samples_fit_def sample_ecg_simps upt_small sample_fits_def)
     (simp add: sample_ecg_def new_ecg_def sample_data_def)

lemma sample_scaling:
  "pack_H (ampl_nanovolt sample_ecg) = Inr [136, 19]"
  "sample_time_interval_of (sample_rate sample_ecg) = Inr 2000"
  "pack_H 2000 = Inr [208, 7]"
  by (simp_all add: sample_ecg_simps pack_H_def sample_time_interval_of_def le_bytes_numeral)

lemma sample_section3: "section3_layout sample_module sample_ecg
    = [2, 20, 1, 0, 0, 0, 3, 0, 0, 0, 1, 1, 0, 0, 0, 3, 0, 0, 0, 2]"
  by (simp add: section3_layout_def sample_ecg_simps upt_small canonical_lead_codes_def
      le_bytes_numeral) (simp add: sample_module_def)

lemma sample_section6: "section6_layout sample_module sample_ecg [136, 19] [208, 7]
    = [136, 19, 208, 7, 0, 0, 6, 0, 6, 0, 36, 250, 12, 254, 244, 1, 37, 250, 13, 254, 245, 1]"
  by (simp add: section6_layout_def sample_ecg_simps upt_small le_bytes_numeral replicate_2)
     (simp add: sample_module_def sample_ecg_def new_ecg_def sample_data_def)

lemma sample_module_lengths:
  "SCPECG_HEADER_LEN sample_module = 6" "SECTION_HEADER_LEN sample_module = 16"
  "POINTER_FIELD_LEN sample_module = 10"
  by (simp_all add: sample_module_def)

lemma sample_section1_length: "length (section1 sample_module e) =
    71 + 2 * length (patient_name e) + length (patient_case e)"
  by (simp add: section1_def Let_def pack_byte_def)
     (simp add: sample_module_def length_le_bytes ascii_def)

lemma sample_section0_length: "length (section0 sample_module empty_sections) = 120"
  by (simp add: section0_empty pointer_fields_def upt_rec)
     (simp add: sample_module_def length_le_bytes)

lemma sections_with_Suc_0: "sections_with scp e p3 p6 (Suc 0) = section1 scp e"
  using sections_with_simps(2) [of scp e p3 p6] by simp

lemma sample_size: "record_size sample_module
     (sections_with sample_module sample_ecg (section3_layout sample_module sample_ecg)
        (section6_layout sample_module sample_ecg [136, 19] [208, 7])) = 335"
  by (simp add: record_size_def sections_with_simps sections_with_Suc_0 sample_section3
      sample_section6 sample_section1_length sample_section0_length sample_module_lengths
      del: length_greater_0_conv)
     (simp add: sample_ecg_def new_ecg_def)

section \<open>The bytes of the sample record\<close>

lemma sample_section0_bytes:
  "section0 sample_module empty_sections =
     [0, 0, 136, 0, 0, 0, 7, 0, 0, 0, 1, 0, 0, 0, 0, 0, 143, 0, 0, 0, 2, 0, 0, 0, 0, 0, 143,
      0, 0, 0, 3, 0, 0, 0, 0, 0, 143, 0, 0, 0, 4, 0, 0, 0, 0, 0, 143, 0, 0, 0, 5, 0, 0, 0,
      0, 0, 143, 0, 0, 0, 6, 0, 0, 0, 0, 0, 143, 0, 0, 0, 7, 0, 0, 0, 0, 0, 143, 0, 0, 0, 8,
      0, 0, 0, 0, 0, 143, 0, 0, 0, 9, 0, 0, 0, 0, 0, 143, 0, 0, 0, 10, 0, 0, 0, 0, 0, 143,
      0, 0, 0, 11, 0, 0, 0, 0, 0, 143, 0, 0, 0]"
  by (simp only: section0_empty upt_1_12 sample_module_lengths)
     (simp add: pointer_fields_def sample_module_def le_bytes_numeral)

lemma ascii_bytes:
  "ascii ''anonymized'' = [97, 110, 111, 110, 121, 109, 105, 122, 101, 100]"
  "ascii ''unknown_case'' = [117, 110, 107, 110, 111, 119, 110, 95, 99, 97, 115, 101]"
  "ascii ''unknown_machine'' =
     [117, 110, 107, 110, 111, 119, 110, 95, 109, 97, 99, 104, 105, 110, 101]"
  by code_simp+

lemma replicate_small: "replicate 6 x = [x, x, x, x, x, x]" "replicate 8 x = [x, x, x, x, x, x, x, x]"
  by (simp_all add: numeral_eq_Suc)

lemma sample_section1_bytes:
  "section1 sample_module sample_ecg =
     [2, 11, 0, 97, 110, 111, 110, 121, 109, 105, 122, 101, 100, 0, 31, 13, 0, 117, 110,
      107, 110, 111, 119, 110, 95, 99, 97, 115, 101, 0, 0, 11, 0, 97, 110, 111, 110, 121,
      109, 105, 122, 101, 100, 0, 8, 1, 0, 2, 7, 3, 0, 0, 0, 0, 4, 3, 0, 0, 0, 0, 25, 4, 0,
      230, 7, 1, 1, 26, 3, 0, 1, 1, 1, 14, 24, 0, 0, 0, 0, 0, 0, 0, 0, 0, 117, 110, 107,
      110, 111, 119, 110, 95, 109, 97, 99, 104, 105, 110, 101, 0, 255, 0, 0]"
  by (simp add: section1_def Let_def pack_byte_def sex_code_of_def sample_ecg_def new_ecg_def)
     (simp add: sample_module_def ascii_bytes le_bytes_numeral replicate_small)

lemma sample_body_crcs:
  "crc_hqx [0, 0, 136, 0, 0, 0, 20, 20, 0, 0, 0, 0, 0, 0, 0, 0, 136, 0, 0, 0, 7, 0, 0, 0, 1, 0, 0,
      0, 0, 0, 143, 0, 0, 0, 2, 0, 0, 0, 0, 0, 143, 0, 0, 0, 3, 0, 0, 0, 0, 0, 143, 0, 0, 0,
      4, 0, 0, 0, 0, 0, 143, 0, 0, 0, 5, 0, 0, 0, 0, 0, 143, 0, 0, 0, 6, 0, 0, 0, 0, 0, 143,
      0, 0, 0, 7, 0, 0, 0, 0, 0, 143, 0, 0, 0, 8, 0, 0, 0, 0, 0, 143, 0, 0, 0, 9, 0, 0, 0,
      0, 0, 143, 0, 0, 0, 10, 0, 0, 0, 0, 0, 143, 0, 0, 0, 11, 0, 0, 0, 0, 0, 143, 0, 0, 0] 0xFFFF = 24682"
  "crc_hqx [1, 0, 119, 0, 0, 0, 20, 20, 0, 0, 0, 0, 0, 0, 2, 11, 0, 97, 110, 111, 110, 121, 109,
      105, 122, 101, 100, 0, 31, 13, 0, 117, 110, 107, 110, 111, 119, 110, 95, 99, 97, 115,
      101, 0, 0, 11, 0, 97, 110, 111, 110, 121, 109, 105, 122, 101, 100, 0, 8, 1, 0, 2, 7,
      3, 0, 0, 0, 0, 4, 3, 0, 0, 0, 0, 25, 4, 0, 230, 7, 1, 1, 26, 3, 0, 1, 1, 1, 14, 24, 0,
      0, 0, 0, 0, 0, 0, 0, 0, 117, 110, 107, 110, 111, 119, 110, 95, 109, 97, 99, 104, 105,
      110, 101, 0, 255, 0, 0] 0xFFFF = 11198"
  "crc_hqx [3, 0, 36, 0, 0, 0, 20, 20, 0, 0, 0, 0, 0, 0, 2, 20, 1, 0, 0, 0, 3, 0, 0, 0, 1, 1, 0,
      0, 0, 3, 0, 0, 0, 2] 0xFFFF = 15791"
  "crc_hqx [6, 0, 38, 0, 0, 0, 20, 20, 0, 0, 0, 0, 0, 0, 136, 19, 208, 7, 0, 0, 6, 0, 6, 0, 36,
      250, 12, 254, 244, 1, 37, 250, 13, 254, 245, 1] 0xFFFF = 17251"
  by code_simp+

lemma sample_pack_section:
  "pack_section sample_module k v =
     le_bytes 2 (uint (crc_hqx (le_bytes 2 (int k) @ le_bytes 4 (int (16 + length v)) @ [20, 20]
                                 @ replicate 6 0 @ v) 0xFFFF))
     @ le_bytes 2 (int k) @ le_bytes 4 (int (16 + length v)) @ [20, 20] @ replicate 6 0 @ v"
  by (simp add: sample_module_def Let_def)

lemma sample_present:
  "present_sections (sections_with sample_module sample_ecg
      (section3_layout sample_module sample_ecg)
      (section6_layout sample_module sample_ecg [136, 19] [208, 7])) = [0, 1, 3, 6]"
proof -
  have "length (section0 sample_module empty_sections) \<noteq> 0"
    and "length (section1 sample_module sample_ecg) \<noteq> 0"
    by (simp_all add: sample_section0_length sample_section1_length)
  then show ?thesis
    by (simp add: present_sections_with sections_with_simps sections_with_Suc_0 sample_section3
        sample_section6)
qed

lemma sample_record_bytes:
  "record_layout sample_module (sections_with sample_module sample_ecg
      (section3_layout sample_module sample_ecg)
      (section6_layout sample_module sample_ecg [136, 19] [208, 7])) =
     [79, 1, 0, 0, 106, 96, 0, 0, 136, 0, 0, 0, 20, 20, 0, 0, 0, 0, 0, 0, 0, 0, 136, 0, 0,
      0, 7, 0, 0, 0, 1, 0, 0, 0, 0, 0, 143, 0, 0, 0, 2, 0, 0, 0, 0, 0, 143, 0, 0, 0, 3, 0,
      0, 0, 0, 0, 143, 0, 0, 0, 4, 0, 0, 0, 0, 0, 143, 0, 0, 0, 5, 0, 0, 0, 0, 0, 143, 0, 0,
      0, 6, 0, 0, 0, 0, 0, 143, 0, 0, 0, 7, 0, 0, 0, 0, 0, 143, 0, 0, 0, 8, 0, 0, 0, 0, 0,
      143, 0, 0, 0, 9, 0, 0, 0, 0, 0, 143, 0, 0, 0, 10, 0, 0, 0, 0, 0, 143, 0, 0, 0, 11, 0,
      0, 0, 0, 0, 143, 0, 0, 0, 190, 43, 1, 0, 119, 0, 0, 0, 20, 20, 0, 0, 0, 0, 0, 0, 2,
      11, 0, 97, 110, 111, 110, 121, 109, 105, 122, 101, 100, 0, 31, 13, 0, 117, 110, 107,
      110, 111, 119, 110, 95, 99, 97, 115, 101, 0, 0, 11, 0, 97, 110, 111, 110, 121, 109,
      105, 122, 101, 100, 0, 8, 1, 0, 2, 7, 3, 0, 0, 0, 0, 4, 3, 0, 0, 0, 0, 25, 4, 0, 230,
      7, 1, 1, 26, 3, 0, 1, 1, 1, 14, 24, 0, 0, 0, 0, 0, 0, 0, 0, 0, 117, 110, 107, 110,
      111, 119, 110, 95, 109, 97, 99, 104, 105, 110, 101, 0, 255, 0, 0, 175, 61, 3, 0, 36,
      0, 0, 0, 20, 20, 0, 0, 0, 0, 0, 0, 2, 20, 1, 0, 0, 0, 3, 0, 0, 0, 1, 1, 0, 0, 0, 3, 0,
      0, 0, 2, 99, 67, 6, 0, 38, 0, 0, 0, 20, 20, 0, 0, 0, 0, 0, 0, 136, 19, 208, 7, 0, 0,
      6, 0, 6, 0, 36, 250, 12, 254, 244, 1, 37, 250, 13, 254, 245, 1]"
  by (simp only: record_layout_def sample_present)
     (simp add: sections_with_simps sections_with_Suc_0
      sample_module_lengths sample_section0_bytes sample_section1_bytes sample_section3
      sample_section6 sample_pack_section replicate_small le_bytes_numeral sample_body_crcs)

lemma sample_record_crc:
  "crc_hqx
     [79, 1, 0, 0, 106, 96, 0, 0, 136, 0, 0, 0, 20, 20, 0, 0, 0, 0, 0, 0, 0, 0, 136, 0, 0,
      0, 7, 0, 0, 0, 1, 0, 0, 0, 0, 0, 143, 0, 0, 0, 2, 0, 0, 0, 0, 0, 143, 0, 0, 0, 3, 0,
      0, 0, 0, 0, 143, 0, 0, 0, 4, 0, 0, 0, 0, 0, 143, 0, 0, 0, 5, 0, 0, 0, 0, 0, 143, 0, 0,
      0, 6, 0, 0, 0, 0, 0, 143, 0, 0, 0, 7, 0, 0, 0, 0, 0, 143, 0, 0, 0, 8, 0, 0, 0, 0, 0,
      143, 0, 0, 0, 9, 0, 0, 0, 0, 0, 143, 0, 0, 0, 10, 0, 0, 0, 0, 0, 143, 0, 0, 0, 11, 0,
      0, 0, 0, 0, 143, 0, 0, 0, 190, 43, 1, 0, 119, 0, 0, 0, 20, 20, 0, 0, 0, 0, 0, 0, 2,
      11, 0, 97, 110, 111, 110, 121, 109, 105, 122, 101, 100, 0, 31, 13, 0, 117, 110, 107,
      110, 111, 119, 110, 95, 99, 97, 115, 101, 0, 0, 11, 0, 97, 110, 111, 110, 121, 109,
      105, 122, 101, 100, 0, 8, 1, 0, 2, 7, 3, 0, 0, 0, 0, 4, 3, 0, 0, 0, 0, 25, 4, 0, 230,
      7, 1, 1, 26, 3, 0, 1, 1, 1, 14, 24, 0, 0, 0, 0, 0, 0, 0, 0, 0, 117, 110, 107, 110,
      111, 119, 110, 95, 109, 97, 99, 104, 105, 110, 101, 0, 255, 0, 0, 175, 61, 3, 0, 36,
      0, 0, 0, 20, 20, 0, 0, 0, 0, 0, 0, 2, 20, 1, 0, 0, 0, 3, 0, 0, 0, 1, 1, 0, 0, 0, 3, 0,
      0, 0, 2, 99, 67, 6, 0, 38, 0, 0, 0, 20, 20, 0, 0, 0, 0, 0, 0, 136, 19, 208, 7, 0, 0,
      6, 0, 6, 0, 36, 250, 12, 254, 244, 1, 37, 250, 13, 254, 245, 1] 0xFFFF = 36869"
  by code_simp

section \<open>Recordings the export rejects\<close>

lemma serie_raises_at_first:
  assumes "0 < n" and "\<not> sample_fits (item (data e) i 0)"
  shows "serie e n i = Inl (StructError, [])"
proof -
  have "[0..<n] = 0 # [1..<n]" using assms(1) by (simp add: upt_conv_Cons)
  moreover have "pack_h (sint (item (data e) i 0)) = Inl StructError"
    using assms(2) by (auto simp: pack_h_def sample_fits_def)
  ultimately show ?thesis
    by (simp add: serie_def emit_def)
qed

lemma loud_ecg_simps:
  "n_leads loud_ecg = 1" "n_samples loud_ecg = 32768"
  "sample_rate loud_ecg = 500" "ampl_nanovolt loud_ecg = 5000"
  "item (data loud_ecg) i j = 40000"
  by (simp_all add: loud_ecg_def new_ecg_def n_leads_def n_samples_def)

lemma loud_section6:
  "section6 sample_module loud_ecg = Inl (StructError, [136, 19, 208, 7, 0, 0, 254, 255])"
proof -
  have "serie loud_ecg 32767 0 = Inl (StructError, [])"
    by (rule serie_raises_at_first) (simp_all add: loud_ecg_simps sample_fits_def)
  then show ?thesis
    by (simp add: section6_def Let_def loud_ecg_simps sample_time_interval_of_def pack_H_def
        emit_def upt_small append_serie_def le_bytes_numeral pack_byte_def)
       (simp add: sample_module_def)
qed

lemma long_ecg_simps:
  "n_leads long_ecg = 1" "n_samples long_ecg = 4294967296"
  by (simp_all add: long_ecg_def new_ecg_def np_zeros_def n_leads_def n_samples_def)

lemma long_section3:
  "section3 sample_module long_ecg = Inl (StructError, [1, 12, 1, 0, 0, 0])"
  by (simp add: section3_head long_ecg_simps upt_small lead_entry_too_long le_bytes_numeral)
     (simp add: sample_module_def)

lemma thirteen_leads_simps:
  "n_leads thirteen_leads = 13" "n_samples thirteen_leads = 1"
  by (simp_all add: thirteen_leads_def new_ecg_def np_zeros_def n_leads_def n_samples_def)

lemma thirteen_section3_length:
  "\<exists>part. section3 sample_module thirteen_leads = Inl (KeyError 12, part) \<and> length part = 110"
  by (simp add: section3_key_error thirteen_leads_simps length_le_bytes length_concat
      o_def sum_list_triv)

section \<open>A recording beyond the cap, and the file system\<close>

lemma length_section3_layout: "length (section3_layout scp e) = 2 + 9 * n_leads e"
  by (simp add: section3_layout_def length_concat o_def sum_list_triv length_le_bytes)

lemma length_section6_layout:
  "length (section6_layout scp e a tb) =
   length a + length tb + 2 + 2 * n_leads e + 2 * (n_leads e * min (n_samples e) 32767)"
  by (simp add: section6_layout_def length_concat o_def sum_list_triv length_le_bytes
      sum_list_replicate algebra_simps)

lemma capped_ecg_simps:
  "n_leads capped_ecg = 1" "n_samples capped_ecg = 40000"
  "sample_rate capped_ecg = 500" "ampl_nanovolt capped_ecg = 5000"
  "item (data capped_ecg) i j = (if j < 32767 then 7 else 40000)"
  by (simp_all add: capped_ecg_def new_ecg_def n_leads_def n_samples_def)

lemma capped_scaling:
  "pack_H (ampl_nanovolt capped_ecg) = Inr [136, 19]"
  "sample_time_interval_of (sample_rate capped_ecg) = Inr 2000"
  "pack_H 2000 = Inr [208, 7]"
  by (simp_all add: capped_ecg_simps pack_H_def sample_time_interval_of_def le_bytes_numeral)

lemma capped_ecg_fits: "encoded_samples_fit capped_ecg"
  by (simp add: encoded_samples_fit_def list_all_iff capped_ecg_simps sample_fits_def)

lemma capped_ecg_beyond_the_cap: "\<not> sample_fits (item (data capped_ecg) 0 32767)"
  by (simp add: capped_ecg_simps sample_fits_def)

lemma capped_section6:
  "section6_layout sample_module capped_ecg [136, 19] [208, 7] =
     [136, 19, 208, 7, 0, 0, 254, 255] @ concat (replicate 32767 [7, 0])"
proof -
  have "map (\<lambda>j. le_bytes 2 (sint (item (data capped_ecg) 0 j))) [0..<32767] =
        map (\<lambda>j. [7, 0]) [0..<32767]"
    by (rule map_cong) (simp_all add: capped_ecg_simps le_bytes_numeral)
  then have series: "map (\<lambda>j. le_bytes 2 (sint (item (data capped_ecg) 0 j))) [0..<32767] =
        replicate 32767 [7, 0]"
    by (simp add: map_replicate_const)
  have cap: "min (n_samples capped_ecg) 32767 = 32767"
    and leads: "[0..<n_leads capped_ecg] = [0]"
    by (simp_all add: capped_ecg_simps upt_small)
  show ?thesis
    by (simp only: section6_layout_def cap leads series list.map)
       (simp add: capped_ecg_simps(1) le_bytes_numeral sample_module_def)
qed

lemma capped_size:
  "record_size sample_module
     (sections_with sample_module capped_ecg (section3_layout sample_module capped_ecg)
        (section6_layout sample_module capped_ecg [136, 19] [208, 7])) = 65846"
  by (simp add: record_size_def sections_with_simps sections_with_Suc_0
      length_section3_layout length_section6_layout
      sample_section1_length sample_section0_length sample_module_lengths capped_ecg_simps(1,2)
      del: length_greater_0_conv)
     (simp add: capped_ecg_def new_ecg_def)

lemma accepts_empty_disk: "accepts empty_disk name n"
  by (simp add: accepts_def empty_disk_def)

section \<open>The claims\<close>

subsection \<open>The constructor\<close>

text \<open>
  C8. Constructing \<open>ECGBasic\<close> with no data argument always fails and never produces an
  all-zero recording: the default array reads the lead count through a property of
  attribute \<open>data\<close> before that attribute is assigned, which raises \<open>AttributeError\<close>.
\<close>

theorem init_without_data_raises:
  "ECGBasic_init None = Inl (AttributeError ''data'')"
  by (simp add: ECGBasic_init_def n_leads_of_slot_def)

subsection \<open>Section 0\<close>

text \<open>
  C1. The claim is that the pointer entry of each populated section (1, 3 and 6) records the
  section header length plus the payload length, and that the entries tile the record. The
  code builds the table at lines 72 to 83, before any payload is prepared, and never
  rebuilds it. So for every module and every recording, whether the export succeeds or
  raises later, section 0 holds the entry of section 0 followed by eleven entries of length
  0, all with the index just behind section 0.
\<close>

theorem pointer_table_built_before_payloads:
  "sections_at_end (build_sections scp e) 0 =
   pointer_fields scp
     ((0, SECTION_HEADER_LEN scp + POINTER_FIELD_LEN scp * 12, SCPECG_HEADER_LEN scp + 1)
      # map (\<lambda>sect_id. (sect_id, 0, SCPECG_HEADER_LEN scp + 1
                                     + (SECTION_HEADER_LEN scp + POINTER_FIELD_LEN scp * 12)))
            [1..<12])"
  by (simp only: sections_at_end_0 section0_empty)

text \<open>
  C1 on the sample recording: sections 1, 3 and 6 have payloads of 103, 20 and 22 bytes,
  and their pointer entries have length 0 and index 143.
\<close>

theorem pointer_table_of_sample_recording:
  "sections_at_end (build_sections sample_module sample_ecg) 0 =
     pointer_fields sample_module
       [(0, 136, 7), (1, 0, 143), (2, 0, 143), (3, 0, 143), (4, 0, 143), (5, 0, 143),
        (6, 0, 143), (7, 0, 143), (8, 0, 143), (9, 0, 143), (10, 0, 143), (11, 0, 143)]
   \<and> length (sections_at_end (build_sections sample_module sample_ecg) 1) = 103
   \<and> length (sections_at_end (build_sections sample_module sample_ecg) 3) = 20
   \<and> length (sections_at_end (build_sections sample_module sample_ecg) 6) = 22"
proof (intro conjI)
  have s3: "section3 sample_module sample_ecg = Inr (section3_layout sample_module sample_ecg)"
    by (rule section3_ok) (simp_all add: sample_ecg_simps)
  have s6: "section6 sample_module sample_ecg =
      Inr (section6_layout sample_module sample_ecg [136, 19] [208, 7])"
    by (rule section6_ok [OF sample_scaling sample_ecg_fits])
  show "sections_at_end (build_sections sample_module sample_ecg) 0 =
     pointer_fields sample_module
       [(0, 136, 7), (1, 0, 143), (2, 0, 143), (3, 0, 143), (4, 0, 143), (5, 0, 143),
        (6, 0, 143), (7, 0, 143), (8, 0, 143), (9, 0, 143), (10, 0, 143), (11, 0, 143)]"
    using pointer_table_built_before_payloads [of sample_module sample_ecg]
    by (simp only: sample_module_lengths upt_1_12 list.map) simp
  show "length (sections_at_end (build_sections sample_module sample_ecg) 1) = 103"
    by (simp only: sections_at_end_1 sample_section1_length)
       (simp add: sample_ecg_def new_ecg_def)
  show "length (sections_at_end (build_sections sample_module sample_ecg) 3) = 20"
    by (simp only: sections_at_end_3 [OF s3] sample_section3) simp
  show "length (sections_at_end (build_sections sample_module sample_ecg) 6) = 22"
    by (simp only: sections_at_end_6 [OF s3 s6] sample_section6) simp
qed

subsection \<open>Section 1\<close>

text \<open>
  C9. For every metadata bundle, section 1 is the sequence of its ten tagged fields, the
  fourth of which is the sex tag with one byte: the male code when \<open>patient_sex\<close> is 1, the
  female code when it is 0 (not the unknown code), and the unknown code for every other
  value. That payload is what the dictionary holds for section 1.
\<close>

theorem sex_tag_value:
  "section1 scp e = concat (map (\<lambda>(tag, v). make_tag scp tag v) (section1_fields scp e))
   \<and> section1_fields scp e ! 3 =
       (TAG_PATIENT_SEX scp,
        [if patient_sex e = 1 then SEX_MALE scp
         else if patient_sex e = 0 then SEX_FEMALE scp else SEX_UNKNOWN scp])
   \<and> sections_at_end (build_sections scp e) 1 = section1 scp e"
proof (intro conjI)
  show "section1 scp e = concat (map (\<lambda>(tag, v). make_tag scp tag v) (section1_fields scp e))"
    by (rule section1_as_fields)
  show "section1_fields scp e ! 3 =
       (TAG_PATIENT_SEX scp,
        [if patient_sex e = 1 then SEX_MALE scp
         else if patient_sex e = 0 then SEX_FEMALE scp else SEX_UNKNOWN scp])"
    by (simp add: section1_fields_def sex_code_of_def pack_byte_def)
  show "sections_at_end (build_sections scp e) 1 = section1 scp e"
    by (rule sections_at_end_1)
qed

text \<open>
  C10. For every metadata bundle, the patient-identifier tag (the first field) and the
  patient-last-name tag (the third) both carry the null-terminated patient name
  (\<open>make_asciiz\<close> of it), and the case identifier is encoded only under the ECG
  sequence-number tag (the second field): changing the case identifier changes that field
  and no other.
\<close>

theorem name_and_case_tags:
  "section1 scp e = concat (map (\<lambda>(tag, v). make_tag scp tag v) (section1_fields scp e))
   \<and> section1_fields scp e ! 0 = (TAG_PATIENT_ID scp, make_asciiz scp (patient_name e))
   \<and> section1_fields scp e ! 2 = (TAG_PATIENT_LAST_NAME scp, make_asciiz scp (patient_name e))
   \<and> section1_fields scp e ! 1 = (TAG_ECG_SEQ_NUM scp, make_asciiz scp (patient_case e))
   \<and> section1_fields scp (e\<lparr>patient_case := c\<rparr>) =
       (section1_fields scp e)[1 := (TAG_ECG_SEQ_NUM scp, make_asciiz scp c)]"
proof (intro conjI)
  show "section1 scp e = concat (map (\<lambda>(tag, v). make_tag scp tag v) (section1_fields scp e))"
    by (rule section1_as_fields)
qed (simp_all add: section1_fields_def)

subsection \<open>Section 3\<close>

text \<open>
  C6, as stated, fails: a recording of one lead with \<open>2^32\<close> samples has at most 12 leads,
  and its ending sample index does not fit 4 bytes; \<open>struct.pack\<close> raises after the lead
  count, the flag byte and the first starting index are appended, and nothing is exported.
\<close>

theorem section3_rejects_long_recording:
  "n_leads long_ecg = 1 \<and> n_samples long_ecg = 4294967296
   \<and> section3 sample_module long_ecg = Inl (StructError, [1, 12, 1, 0, 0, 0])
   \<and> export_scp sample_module long_ecg ''out.scp'' empty_disk = (Inl StructError, empty_disk)"
  by (simp only: long_ecg_simps long_section3 export_scp_raises [OF long_section3] simp_thms)

text \<open>
  C6, amended. For every recording with at most 12 leads and fewer than \<open>2^32\<close> samples per
  lead, the section 3 payload is: one byte lead count, one flag byte equal to the
  all-leads-simultaneous constant OR'd with the lead count shifted left by 3, then for each
  lead in the canonical order I, II, III, aVR, aVL, aVF, V1 to V6 a 4-byte starting sample
  index 1, a 4-byte ending sample index equal to the sample count, and the one-byte lead
  code of the table. The dictionary holds that payload for section 3.
\<close>

theorem section3_payload:
  assumes "n_leads e \<le> 12" and "n_samples e < 4294967296"
  shows "section3 scp e = Inr (section3_layout scp e)
         \<and> sections_at_end (build_sections scp e) 3 = section3_layout scp e"
  using section3_ok [OF assms] by (simp add: sections_at_end_3)

text \<open>C6, amended, on the sample recording of two leads and three samples.\<close>

theorem section3_payload_of_sample_recording:
  "n_leads sample_ecg \<le> 12 \<and> n_samples sample_ecg < 4294967296
   \<and> section3 sample_module sample_ecg =
       Inr [2, 20, 1, 0, 0, 0, 3, 0, 0, 0, 1, 1, 0, 0, 0, 3, 0, 0, 0, 2]"
proof -
  have h: "n_leads sample_ecg \<le> 12" "n_samples sample_ecg < 4294967296"
    by (simp_all add: sample_ecg_simps)
  show ?thesis
    using h section3_payload [OF h, of sample_module] by (simp add: sample_section3)
qed

text \<open>
  C3, as stated, fails: with thirteen leads the export raises \<open>KeyError\<close> at the lookup of
  lead 12, and no file is written, but bytes have been built by then: section 0 (120
  bytes), section 1 (103 bytes) and the first 110 bytes of section 3.
\<close>

theorem thirteen_leads_raise_after_sections_0_and_1:
  "n_leads thirteen_leads = 13
   \<and> export_scp sample_module thirteen_leads ''out.scp'' empty_disk = (Inl (KeyError 12), empty_disk)
   \<and> length (sections_at_end (build_sections sample_module thirteen_leads) 0) = 120
   \<and> length (sections_at_end (build_sections sample_module thirteen_leads) 1) = 103
   \<and> length (sections_at_end (build_sections sample_module thirteen_leads) 3) = 110"
proof -
  obtain part where s3: "section3 sample_module thirteen_leads = Inl (KeyError 12, part)"
    and len: "length part = 110"
    using thirteen_section3_length by blast
  have "length (sections_at_end (build_sections sample_module thirteen_leads) 1) = 103"
    by (simp only: sections_at_end_1 sample_section1_length)
       (simp add: thirteen_leads_def new_ecg_def)
  then show ?thesis
    by (simp only: thirteen_leads_simps export_scp_raises [OF s3] sections_at_end_0
          sample_section0_length sections_at_end_3_raised [OF s3] len simp_thms)
qed

text \<open>
  C3, amended. For every recording with more leads than the 12 entries of the lead-order
  table, the export fails and leaves the file system as it was: with \<open>KeyError\<close> from the
  lookup of lead 12, or with a \<open>struct.pack\<close> error when there are 32 or more leads or
  \<open>2^32\<close> or more samples per lead. The exception is raised while section 3 is built, when
  the dictionary already holds the payloads of sections 0 and 1.
\<close>

theorem export_fails_beyond_12_leads:
  assumes "12 < n_leads e"
  shows "export_scp scp e fn fs =
           (Inl (if 32 \<le> n_leads e \<or> 4294967296 \<le> n_samples e then StructError else KeyError 12),
            fs)
         \<and> sections_at_end (build_sections scp e) 0 = section0 scp empty_sections
         \<and> sections_at_end (build_sections scp e) 1 = section1 scp e"
proof -
  obtain part where "section3 scp e =
      Inl (if 32 \<le> n_leads e \<or> 4294967296 \<le> n_samples e then StructError else KeyError 12, part)"
    using section3_too_many_leads [OF assms] by blast
  then show ?thesis
    by (simp only: export_scp_raises sections_at_end_0 sections_at_end_1 simp_thms)
qed

text \<open>C3, amended, on thirteen leads and a file system that already has the file.\<close>

theorem export_of_thirteen_leads_keeps_the_file:
  "12 < n_leads thirteen_leads
   \<and> export_scp sample_module thirteen_leads ''out.scp''
         (empty_disk\<lparr>files := [''out.scp'' \<mapsto> [1]]\<rparr>) =
       (Inl (KeyError 12), empty_disk\<lparr>files := [''out.scp'' \<mapsto> [1]]\<rparr>)"
proof -
  have h: "12 < n_leads thirteen_leads" by (simp add: thirteen_leads_simps)
  show ?thesis
    using h export_fails_beyond_12_leads [OF h, of sample_module "''out.scp''"
        "empty_disk\<lparr>files := [''out.scp'' \<mapsto> [1]]\<rparr>"]
    by (simp add: thirteen_leads_simps)
qed

subsection \<open>Section 6\<close>

text \<open>
  C2, as stated, fails. A recording of one lead with 32768 samples of value 40000 has more
  than 32767 samples, and the export raises: the first sample does not fit 16 bits signed.
  A recording of one lead with \<open>2^32\<close> zero samples has more than 32767 samples, and the
  export raises as well, in section 3.
\<close>

theorem export_rejects_wide_samples_and_long_recordings:
  "n_samples loud_ecg = 32768
   \<and> section6 sample_module loud_ecg = Inl (StructError, [136, 19, 208, 7, 0, 0, 254, 255])
   \<and> export_scp sample_module loud_ecg ''out.scp'' empty_disk = (Inl StructError, empty_disk)
   \<and> n_samples long_ecg = 4294967296
   \<and> export_scp sample_module long_ecg ''out.scp'' empty_disk = (Inl StructError, empty_disk)"
proof -
  have "section3 sample_module loud_ecg = Inr (section3_layout sample_module loud_ecg)"
    by (rule section3_ok) (simp_all add: loud_ecg_simps)
  then have "export_scp sample_module loud_ecg ''out.scp'' empty_disk = (Inl StructError, empty_disk)"
    using loud_section6 by (rule export_scp_raises_in_section6)
  then show ?thesis
    by (simp only: loud_ecg_simps long_ecg_simps loud_section6
          export_scp_raises [OF long_section3] simp_thms)
qed

text \<open>
  C2, amended. For every recording whose amplitude multiplier fits 2 bytes (0 to 65535),
  whose sample rate is a nonzero integer that converts to a float (magnitude below
  \<open>2^1024 - 2^970\<close>), whose sample interval \<open>int(1e6 / sample_rate)\<close> fits 2 bytes, and whose
  first \<open>min(n_samples, 32767)\<close> samples of every lead fit 16 bits signed, the section 6
  payload is the two scaling fields, the encoding and compression bytes, then for each lead
  the byte count \<open>2 * min(n_samples, 32767)\<close>, then for each lead exactly its first
  \<open>min(n_samples, 32767)\<close> samples as 16-bit signed little-endian values. The samples beyond
  the cap are never read, so they are dropped and cannot make section 6 fail. If in addition
  there are at most 12 leads, fewer than \<open>2^32\<close> samples per lead, the record size fits
  4 bytes, and the file system lets the file (the record and 2 bytes) be opened and written,
  the export does not fail.
\<close>

theorem section6_payload:
  assumes "pack_H (ampl_nanovolt e) = Inr a"
    and "sample_time_interval_of (sample_rate e) = Inr t"
    and "pack_H t = Inr tb"
    and "encoded_samples_fit e"
  shows "section6 scp e = Inr (section6_layout scp e a tb)
         \<and> (n_leads e \<le> 12 \<and> n_samples e < 4294967296
              \<and> record_size scp (sections_with scp e (section3_layout scp e)
                                      (section6_layout scp e a tb)) < 4294967296
              \<and> accepts fs fn
                    (length (record_layout scp (sections_with scp e (section3_layout scp e)
                                                   (section6_layout scp e a tb))) + 2)
            \<longrightarrow> fst (export_scp scp e fn fs) = Inr fn
                \<and> sections_at_end (build_sections scp e) 6 = section6_layout scp e a tb)"
proof -
  let ?s = "sections_with scp e (section3_layout scp e) (section6_layout scp e a tb)"
  have s6: "section6 scp e = Inr (section6_layout scp e a tb)"
    using assms by (rule section6_ok)
  show ?thesis
  proof (intro conjI impI)
    show "section6 scp e = Inr (section6_layout scp e a tb)" by (rule s6)
  next
    assume h: "n_leads e \<le> 12 \<and> n_samples e < 4294967296
       \<and> record_size scp ?s < 4294967296
       \<and> accepts fs fn (length (record_layout scp ?s) + 2)"
    then have s3: "section3 scp e = Inr (section3_layout scp e)"
      by (simp add: section3_ok)
    from h have size: "record_size scp ?s < 4294967296"
      and sink: "accepts fs fn (length (record_layout scp ?s) + 2)"
      by blast+
    show "fst (export_scp scp e fn fs) = Inr fn"
      using s3 s6 size sink by (rule export_scp_ok)
    show "sections_at_end (build_sections scp e) 6 = section6_layout scp e a tb"
      using s3 s6 by (rule sections_at_end_6)
  qed
qed

text \<open>
  C2, amended, on a recording beyond the cap: one lead of 40000 samples, of which the first
  32767 are 7 and the others do not fit 16 bits. The byte count is 65534 (\<open>[254, 255]\<close>), the
  payload holds 32767 samples, and the export succeeds.
\<close>

theorem section6_payload_of_capped_recording:
  "n_samples capped_ecg = 40000
   \<and> \<not> sample_fits (item (data capped_ecg) 0 32767)
   \<and> section6 sample_module capped_ecg =
       Inr ([136, 19, 208, 7, 0, 0, 254, 255] @ concat (replicate 32767 [7, 0]))
   \<and> fst (export_scp sample_module capped_ecg ''out.scp'' empty_disk) = Inr ''out.scp''"
proof -
  let ?p3 = "section3_layout sample_module capped_ecg"
  let ?p6 = "section6_layout sample_module capped_ecg [136, 19] [208, 7]"
  let ?s = "sections_with sample_module capped_ecg ?p3 ?p6"
  have fits: "n_leads capped_ecg \<le> 12 \<and> n_samples capped_ecg < 4294967296
      \<and> record_size sample_module ?s < 4294967296
      \<and> accepts empty_disk ''out.scp'' (length (record_layout sample_module ?s) + 2)"
    by (simp add: capped_ecg_simps capped_size accepts_empty_disk)
  from section6_payload [OF capped_scaling capped_ecg_fits, of sample_module empty_disk "''out.scp''"]
    fits
  have "section6 sample_module capped_ecg = Inr ?p6"
    and "fst (export_scp sample_module capped_ecg ''out.scp'' empty_disk) = Inr ''out.scp''"
    by blast+
  then show ?thesis
    by (simp only: capped_section6 capped_ecg_simps(2) capped_ecg_beyond_the_cap simp_thms)
qed

subsection \<open>The record and the file\<close>

text \<open>
  C5. For every recording whose record the code assembles, the record is the 4-byte
  little-endian size field followed by the sections with a nonempty payload, in ascending
  order of the section id, each wrapped by \<open>pack_section\<close>; the size is the record header
  length plus, for each section with a nonempty payload, the section header length and the
  payload length, and it fits the 4 bytes. A section with an empty payload adds nothing,
  and only sections 0, 1, 3 and 6 can have a payload.
\<close>

theorem record_is_size_then_present_sections:
  assumes "build_record scp e = Inr rcd"
  shows "rcd = record_layout scp (sections_at_end (build_sections scp e))
         \<and> record_size scp (sections_at_end (build_sections scp e)) < 4294967296
         \<and> set (present_sections (sections_at_end (build_sections scp e))) \<subseteq> {0, 1, 3, 6}"
proof -
  from assms obtain p3 p6 where "build_sections scp e = Inr (sections_with scp e p3 p6)"
    and "record_size scp (sections_with scp e p3 p6) < 4294967296"
    and "rcd = record_layout scp (sections_with scp e p3 p6)"
    by (rule build_record_Inr)
  moreover have "set (present_sections (sections_with scp e p3 p6)) \<subseteq> {0, 1, 3, 6}"
    by (auto simp: present_sections_with sections_with_simps)
  ultimately show ?thesis by (simp add: sections_at_end_def)
qed

text \<open>C5 on the sample recording: the record exists, has the layout with the sections 0, 1,
  3 and 6, and starts with the size 335.\<close>

theorem record_of_sample_recording:
  "build_record sample_module sample_ecg =
     Inr (record_layout sample_module (sections_at_end (build_sections sample_module sample_ecg)))
   \<and> present_sections (sections_at_end (build_sections sample_module sample_ecg)) = [0, 1, 3, 6]
   \<and> take 4 (record_layout sample_module
                (sections_at_end (build_sections sample_module sample_ecg))) = [79, 1, 0, 0]"
proof -
  let ?p3 = "section3_layout sample_module sample_ecg"
  let ?p6 = "section6_layout sample_module sample_ecg [136, 19] [208, 7]"
  let ?s = "sections_with sample_module sample_ecg ?p3 ?p6"
  have s3: "section3 sample_module sample_ecg = Inr ?p3"
    by (rule section3_ok) (simp_all add: sample_ecg_simps)
  have s6: "section6 sample_module sample_ecg = Inr ?p6"
    by (rule section6_ok [OF sample_scaling sample_ecg_fits])
  have size: "record_size sample_module ?s < 4294967296"
    by (simp add: sample_size)
  have h: "build_record sample_module sample_ecg = Inr (record_layout sample_module ?s)"
    using s3 s6 size by (rule build_record_ok)
  have at_end: "sections_at_end (build_sections sample_module sample_ecg) = ?s"
    by (simp add: build_sections_unfold s3 s6 sections_at_end_def)
  have "length (section0 sample_module empty_sections) \<noteq> 0"
    and "length (section1 sample_module sample_ecg) \<noteq> 0"
    by (simp_all add: sample_section0_length sample_section1_length)
  then have present: "present_sections ?s = [0, 1, 3, 6]"
    by (simp add: present_sections_with sections_with_simps sections_with_Suc_0 sample_section3
        sample_section6)
  have "take 4 (record_layout sample_module ?s) = le_bytes 4 (int (record_size sample_module ?s))"
    by (simp add: record_layout_def record_size_sections_with length_le_bytes)
  then have start: "take 4 (record_layout sample_module ?s) = [79, 1, 0, 0]"
    by (simp add: sample_size le_bytes_numeral)
  show ?thesis
    using record_is_size_then_present_sections [OF h] h present start
    by (simp add: at_end)
qed

text \<open>
  C4. For every recording whose record the code assembles, and every file system that lets
  the file be opened and written, the export returns the file name and writes the file
  \<open>CRC ++ record\<close>, where the CRC is the two little-endian bytes of the CCITT checksum of
  the record (polynomial \<open>0x1021\<close>, initial register \<open>0xFFFF\<close>, no final XOR). So bytes 2 to
  the end of the file are the record, and the checksum recomputed over them is the value in
  the first two bytes.
\<close>

theorem file_is_crc_then_record:
  assumes "build_record scp e = Inr rcd"
    and "accepts fs fn (length rcd + 2)"
  shows "let out = le_bytes 2 (uint (crc_ccitt 0xFFFF rcd)) @ rcd
         in export_scp scp e fn fs = (Inr fn, fs\<lparr>files := (files fs)(fn \<mapsto> out)\<rparr>)
            \<and> drop 2 out = rcd
            \<and> take 2 out = le_bytes 2 (uint (crc_ccitt 0xFFFF (drop 2 out)))"
  using export_scp_written [OF assms]
  by (simp add: Let_def length_le_bytes crc_hqx_is_crc_ccitt)

text \<open>
  C4 on the sample recording: the record of 333 bytes, and the file, which starts with the
  checksum \<open>0x9005\<close> as \<open>[5, 144]\<close>. Where no path can be opened, the export raises
  \<open>OSError\<close>.
\<close>

theorem file_of_sample_recording:
  "build_record sample_module sample_ecg =
     Inr [79, 1, 0, 0, 106, 96, 0, 0, 136, 0, 0, 0, 20, 20, 0, 0, 0, 0, 0, 0, 0, 0, 136, 0, 0,
         0, 7, 0, 0, 0, 1, 0, 0, 0, 0, 0, 143, 0, 0, 0, 2, 0, 0, 0, 0, 0, 143, 0, 0, 0, 3, 0,
         0, 0, 0, 0, 143, 0, 0, 0, 4, 0, 0, 0, 0, 0, 143, 0, 0, 0, 5, 0, 0, 0, 0, 0, 143, 0,
         0, 0, 6, 0, 0, 0, 0, 0, 143, 0, 0, 0, 7, 0, 0, 0, 0, 0, 143, 0, 0, 0, 8, 0, 0, 0, 0,
         0, 143, 0, 0, 0, 9, 0, 0, 0, 0, 0, 143, 0, 0, 0, 10, 0, 0, 0, 0, 0, 143, 0, 0, 0,
         11, 0, 0, 0, 0, 0, 143, 0, 0, 0, 190, 43, 1, 0, 119, 0, 0, 0, 20, 20, 0, 0, 0, 0, 0,
         0, 2, 11, 0, 97, 110, 111, 110, 121, 109, 105, 122, 101, 100, 0, 31, 13, 0, 117,
         110, 107, 110, 111, 119, 110, 95, 99, 97, 115, 101, 0, 0, 11, 0, 97, 110, 111, 110,
         121, 109, 105, 122, 101, 100, 0, 8, 1, 0, 2, 7, 3, 0, 0, 0, 0, 4, 3, 0, 0, 0, 0, 25,
         4, 0, 230, 7, 1, 1, 26, 3, 0, 1, 1, 1, 14, 24, 0, 0, 0, 0, 0, 0, 0, 0, 0, 117, 110,
         107, 110, 111, 119, 110, 95, 109, 97, 99, 104, 105, 110, 101, 0, 255, 0, 0, 175, 61,
         3, 0, 36, 0, 0, 0, 20, 20, 0, 0, 0, 0, 0, 0, 2, 20, 1, 0, 0, 0, 3, 0, 0, 0, 1, 1, 0,
         0, 0, 3, 0, 0, 0, 2, 99, 67, 6, 0, 38, 0, 0, 0, 20, 20, 0, 0, 0, 0, 0, 0, 136, 19,
         208, 7, 0, 0, 6, 0, 6, 0, 36, 250, 12, 254, 244, 1, 37, 250, 13, 254, 245, 1]
   \<and> crc_ccitt 0xFFFF
         [79, 1, 0, 0, 106, 96, 0, 0, 136, 0, 0, 0, 20, 20, 0, 0, 0, 0, 0, 0, 0, 0, 136, 0, 0,
         0, 7, 0, 0, 0, 1, 0, 0, 0, 0, 0, 143, 0, 0, 0, 2, 0, 0, 0, 0, 0, 143, 0, 0, 0, 3, 0,
         0, 0, 0, 0, 143, 0, 0, 0, 4, 0, 0, 0, 0, 0, 143, 0, 0, 0, 5, 0, 0, 0, 0, 0, 143, 0,
         0, 0, 6, 0, 0, 0, 0, 0, 143, 0, 0, 0, 7, 0, 0, 0, 0, 0, 143, 0, 0, 0, 8, 0, 0, 0, 0,
         0, 143, 0, 0, 0, 9, 0, 0, 0, 0, 0, 143, 0, 0, 0, 10, 0, 0, 0, 0, 0, 143, 0, 0, 0,
         11, 0, 0, 0, 0, 0, 143, 0, 0, 0, 190, 43, 1, 0, 119, 0, 0, 0, 20, 20, 0, 0, 0, 0, 0,
         0, 2, 11, 0, 97, 110, 111, 110, 121, 109, 105, 122, 101, 100, 0, 31, 13, 0, 117,
         110, 107, 110, 111, 119, 110, 95, 99, 97, 115, 101, 0, 0, 11, 0, 97, 110, 111, 110,
         121, 109, 105, 122, 101, 100, 0, 8, 1, 0, 2, 7, 3, 0, 0, 0, 0, 4, 3, 0, 0, 0, 0, 25,
         4, 0, 230, 7, 1, 1, 26, 3, 0, 1, 1, 1, 14, 24, 0, 0, 0, 0, 0, 0, 0, 0, 0, 117, 110,
         107, 110, 111, 119, 110, 95, 109, 97, 99, 104, 105, 110, 101, 0, 255, 0, 0, 175, 61,
         3, 0, 36, 0, 0, 0, 20, 20, 0, 0, 0, 0, 0, 0, 2, 20, 1, 0, 0, 0, 3, 0, 0, 0, 1, 1, 0,
         0, 0, 3, 0, 0, 0, 2, 99, 67, 6, 0, 38, 0, 0, 0, 20, 20, 0, 0, 0, 0, 0, 0, 136, 19,
         208, 7, 0, 0, 6, 0, 6, 0, 36, 250, 12, 254, 244, 1, 37, 250, 13, 254, 245, 1]
       = 0x9005
   \<and> export_scp sample_module sample_ecg ''out.scp'' empty_disk =
       (Inr ''out.scp'',
        empty_disk\<lparr>files := [''out.scp'' \<mapsto>
          [5, 144, 79, 1, 0, 0, 106, 96, 0, 0, 136, 0, 0, 0, 20, 20, 0, 0, 0, 0, 0, 0, 0, 0,
           136, 0, 0, 0, 7, 0, 0, 0, 1, 0, 0, 0, 0, 0, 143, 0, 0, 0, 2, 0, 0, 0, 0, 0, 143, 0,
           0, 0, 3, 0, 0, 0, 0, 0, 143, 0, 0, 0, 4, 0, 0, 0, 0, 0, 143, 0, 0, 0, 5, 0, 0, 0, 0,
           0, 143, 0, 0, 0, 6, 0, 0, 0, 0, 0, 143, 0, 0, 0, 7, 0, 0, 0, 0, 0, 143, 0, 0, 0, 8,
           0, 0, 0, 0, 0, 143, 0, 0, 0, 9, 0, 0, 0, 0, 0, 143, 0, 0, 0, 10, 0, 0, 0, 0, 0, 143,
           0, 0, 0, 11, 0, 0, 0, 0, 0, 143, 0, 0, 0, 190, 43, 1, 0, 119, 0, 0, 0, 20, 20, 0, 0,
           0, 0, 0, 0, 2, 11, 0, 97, 110, 111, 110, 121, 109, 105, 122, 101, 100, 0, 31, 13, 0,
           117, 110, 107, 110, 111, 119, 110, 95, 99, 97, 115, 101, 0, 0, 11, 0, 97, 110, 111,
           110, 121, 109, 105, 122, 101, 100, 0, 8, 1, 0, 2, 7, 3, 0, 0, 0, 0, 4, 3, 0, 0, 0,
           0, 25, 4, 0, 230, 7, 1, 1, 26, 3, 0, 1, 1, 1, 14, 24, 0, 0, 0, 0, 0, 0, 0, 0, 0,
           117, 110, 107, 110, 111, 119, 110, 95, 109, 97, 99, 104, 105, 110, 101, 0, 255, 0,
           0, 175, 61, 3, 0, 36, 0, 0, 0, 20, 20, 0, 0, 0, 0, 0, 0, 2, 20, 1, 0, 0, 0, 3, 0, 0,
           0, 1, 1, 0, 0, 0, 3, 0, 0, 0, 2, 99, 67, 6, 0, 38, 0, 0, 0, 20, 20, 0, 0, 0, 0, 0,
           0, 136, 19, 208, 7, 0, 0, 6, 0, 6, 0, 36, 250, 12, 254, 244, 1, 37, 250, 13, 254,
           245, 1]]\<rparr>)
   \<and> export_scp sample_module sample_ecg ''out.scp'' locked_disk = (Inl OSError, locked_disk)"
proof -
  let ?p3 = "section3_layout sample_module sample_ecg"
  let ?p6 = "section6_layout sample_module sample_ecg [136, 19] [208, 7]"
  let ?s = "sections_with sample_module sample_ecg ?p3 ?p6"
  let ?rcd = "[79, 1, 0, 0, 106, 96, 0, 0, 136, 0, 0, 0, 20, 20, 0, 0, 0, 0, 0, 0, 0, 0, 136, 0, 0,
         0, 7, 0, 0, 0, 1, 0, 0, 0, 0, 0, 143, 0, 0, 0, 2, 0, 0, 0, 0, 0, 143, 0, 0, 0, 3, 0,
         0, 0, 0, 0, 143, 0, 0, 0, 4, 0, 0, 0, 0, 0, 143, 0, 0, 0, 5, 0, 0, 0, 0, 0, 143, 0,
         0, 0, 6, 0, 0, 0, 0, 0, 143, 0, 0, 0, 7, 0, 0, 0, 0, 0, 143, 0, 0, 0, 8, 0, 0, 0, 0,
         0, 143, 0, 0, 0, 9, 0, 0, 0, 0, 0, 143, 0, 0, 0, 10, 0, 0, 0, 0, 0, 143, 0, 0, 0,
         11, 0, 0, 0, 0, 0, 143, 0, 0, 0, 190, 43, 1, 0, 119, 0, 0, 0, 20, 20, 0, 0, 0, 0, 0,
         0, 2, 11, 0, 97, 110, 111, 110, 121, 109, 105, 122, 101, 100, 0, 31, 13, 0, 117,
         110, 107, 110, 111, 119, 110, 95, 99, 97, 115, 101, 0, 0, 11, 0, 97, 110, 111, 110,
         121, 109, 105, 122, 101, 100, 0, 8, 1, 0, 2, 7, 3, 0, 0, 0, 0, 4, 3, 0, 0, 0, 0, 25,
         4, 0, 230, 7, 1, 1, 26, 3, 0, 1, 1, 1, 14, 24, 0, 0, 0, 0, 0, 0, 0, 0, 0, 117, 110,
         107, 110, 111, 119, 110, 95, 109, 97, 99, 104, 105, 110, 101, 0, 255, 0, 0, 175, 61,
         3, 0, 36, 0, 0, 0, 20, 20, 0, 0, 0, 0, 0, 0, 2, 20, 1, 0, 0, 0, 3, 0, 0, 0, 1, 1, 0,
         0, 0, 3, 0, 0, 0, 2, 99, 67, 6, 0, 38, 0, 0, 0, 20, 20, 0, 0, 0, 0, 0, 0, 136, 19,
         208, 7, 0, 0, 6, 0, 6, 0, 36, 250, 12, 254, 244, 1, 37, 250, 13, 254, 245, 1]"
  have s3: "section3 sample_module sample_ecg = Inr ?p3"
    by (rule section3_ok) (simp_all add: sample_ecg_simps)
  have s6: "section6 sample_module sample_ecg = Inr ?p6"
    by (rule section6_ok [OF sample_scaling sample_ecg_fits])
  have size: "record_size sample_module ?s < 4294967296"
    by (simp add: sample_size)
  have h: "build_record sample_module sample_ecg = Inr ?rcd"
    using build_record_ok [OF s3 s6 size] by (simp only: sample_record_bytes)
  have crc: "crc_ccitt 0xFFFF ?rcd = 0x9005"
    using sample_record_crc by (simp only: crc_hqx_is_crc_ccitt)
  have written: "export_scp sample_module sample_ecg ''out.scp'' empty_disk =
      (Inr ''out.scp'',
       empty_disk\<lparr>files := (files empty_disk)(''out.scp'' \<mapsto>
         le_bytes 2 (uint (crc_ccitt 0xFFFF ?rcd)) @ ?rcd)\<rparr>)"
    using file_is_crc_then_record [OF h accepts_empty_disk, of "''out.scp''"]
    by (simp only: Let_def)
  have bytes: "le_bytes 2 36869 = [5, 144]"
    by (simp add: le_bytes_numeral)
  have locked: "export_scp sample_module sample_ecg ''out.scp'' locked_disk =
      (Inl OSError, locked_disk)"
    by (simp add: export_scp_unfold h write_file_refused locked_disk_def)
  have "files empty_disk = Map.empty"
    by (simp add: empty_disk_def)
  then show ?thesis
    using h crc written locked by (simp add: bytes)
qed

end
